theory Spec2Isabelle
  imports Complex_Main "HOL-Library.Word"
begin

unbundle bit_operations_syntax

section \<open>Capability model (exchanges/exchange\_types.go)\<close>

text \<open>
  The withdrawal-method constants of the \<^verbatim>\<open>const\<close> block of exchange\_types.go.
  Go's \<^verbatim>\<open>uint32\<close> is \<open>32 word\<close>; \<^verbatim>\<open>(1 << n)\<close> is \<open>push_bit n 1\<close>.
\<close>

type_synonym uint32 = "32 word"

definition NoAPIWithdrawalMethods :: uint32 where
  "NoAPIWithdrawalMethods = 0"

definition NoAPIWithdrawalMethodsText :: string where
  "NoAPIWithdrawalMethodsText = ''NONE, WEBSITE ONLY''"

definition AutoWithdrawCrypto :: uint32 where
  "AutoWithdrawCrypto = push_bit 0 1"

definition AutoWithdrawCryptoWithAPIPermission :: uint32 where
  "AutoWithdrawCryptoWithAPIPermission = push_bit 1 1"

definition AutoWithdrawCryptoWithSetup :: uint32 where
  "AutoWithdrawCryptoWithSetup = push_bit 2 1"

definition AutoWithdrawCryptoText :: string where
  "AutoWithdrawCryptoText = ''AUTO WITHDRAW CRYPTO''"

definition AutoWithdrawCryptoWithAPIPermissionText :: string where
  "AutoWithdrawCryptoWithAPIPermissionText = ''AUTO WITHDRAW CRYPTO WITH API PERMISSION''"

definition AutoWithdrawCryptoWithSetupText :: string where
  "AutoWithdrawCryptoWithSetupText = ''AUTO WITHDRAW CRYPTO WITH SETUP''"

definition WithdrawCryptoWith2FA :: uint32 where
  "WithdrawCryptoWith2FA = push_bit 3 1"

definition WithdrawCryptoWithSMS :: uint32 where
  "WithdrawCryptoWithSMS = push_bit 4 1"

definition WithdrawCryptoWithEmail :: uint32 where
  "WithdrawCryptoWithEmail = push_bit 5 1"

definition WithdrawCryptoWithWebsiteApproval :: uint32 where
  "WithdrawCryptoWithWebsiteApproval = push_bit 6 1"

definition WithdrawCryptoWithAPIPermission :: uint32 where
  "WithdrawCryptoWithAPIPermission = push_bit 7 1"

definition WithdrawCryptoWith2FAText :: string where
  "WithdrawCryptoWith2FAText = ''WITHDRAW CRYPTO WITH 2FA''"

definition WithdrawCryptoWithSMSText :: string where
  "WithdrawCryptoWithSMSText = ''WITHDRAW CRYPTO WITH SMS''"

definition WithdrawCryptoWithEmailText :: string where
  "WithdrawCryptoWithEmailText = ''WITHDRAW CRYPTO WITH EMAIL''"

definition WithdrawCryptoWithWebsiteApprovalText :: string where
  "WithdrawCryptoWithWebsiteApprovalText = ''WITHDRAW CRYPTO WITH WEBSITE APPROVAL''"

definition WithdrawCryptoWithAPIPermissionText :: string where
  "WithdrawCryptoWithAPIPermissionText = ''WITHDRAW CRYPTO WITH API PERMISSION''"

definition AutoWithdrawFiat :: uint32 where
  "AutoWithdrawFiat = push_bit 8 1"

definition AutoWithdrawFiatWithAPIPermission :: uint32 where
  "AutoWithdrawFiatWithAPIPermission = push_bit 9 1"

definition AutoWithdrawFiatWithSetup :: uint32 where
  "AutoWithdrawFiatWithSetup = push_bit 10 1"

definition AutoWithdrawFiatText :: string where
  "AutoWithdrawFiatText = ''AUTO WITHDRAW FIAT''"

definition AutoWithdrawFiatWithAPIPermissionText :: string where
  "AutoWithdrawFiatWithAPIPermissionText = ''AUTO WITHDRAW FIAT WITH API PERMISSION''"

definition AutoWithdrawFiatWithSetupText :: string where
  "AutoWithdrawFiatWithSetupText = ''AUTO WITHDRAW FIAT WITH SETUP''"

definition WithdrawFiatWith2FA :: uint32 where
  "WithdrawFiatWith2FA = push_bit 11 1"

definition WithdrawFiatWithSMS :: uint32 where
  "WithdrawFiatWithSMS = push_bit 12 1"

definition WithdrawFiatWithEmail :: uint32 where
  "WithdrawFiatWithEmail = push_bit 13 1"

definition WithdrawFiatWithWebsiteApproval :: uint32 where
  "WithdrawFiatWithWebsiteApproval = push_bit 14 1"

definition WithdrawFiatWithAPIPermission :: uint32 where
  "WithdrawFiatWithAPIPermission = push_bit 15 1"

definition WithdrawFiatWith2FAText :: string where
  "WithdrawFiatWith2FAText = ''WITHDRAW FIAT WITH 2FA''"

definition WithdrawFiatWithSMSText :: string where
  "WithdrawFiatWithSMSText = ''WITHDRAW FIAT WITH SMS''"

definition WithdrawFiatWithEmailText :: string where
  "WithdrawFiatWithEmailText = ''WITHDRAW FIAT WITH EMAIL''"

definition WithdrawFiatWithWebsiteApprovalText :: string where
  "WithdrawFiatWithWebsiteApprovalText = ''WITHDRAW FIAT WITH WEBSITE APPROVAL''"

definition WithdrawFiatWithAPIPermissionText :: string where
  "WithdrawFiatWithAPIPermissionText = ''WITHDRAW FIAT WITH API PERMISSION''"

definition WithdrawCryptoViaWebsiteOnly :: uint32 where
  "WithdrawCryptoViaWebsiteOnly = push_bit 16 1"

definition WithdrawFiatViaWebsiteOnly :: uint32 where
  "WithdrawFiatViaWebsiteOnly = push_bit 17 1"

definition WithdrawCryptoViaWebsiteOnlyText :: string where
  "WithdrawCryptoViaWebsiteOnlyText = ''WITHDRAW CRYPTO VIA WEBSITE ONLY''"

definition WithdrawFiatViaWebsiteOnlyText :: string where
  "WithdrawFiatViaWebsiteOnlyText = ''WITHDRAW FIAT VIA WEBSITE ONLY''"

definition UnknownWithdrawalTypeText :: string where
  "UnknownWithdrawalTypeText = ''UNKNOWN''"

text \<open>
  The eighteen flag constants in the order of the \<^verbatim>\<open>const\<close> block, and the label
  constant declared for each.
\<close>

definition withdrawal_flags :: "uint32 list" where
  "withdrawal_flags =
     [AutoWithdrawCrypto, AutoWithdrawCryptoWithAPIPermission, AutoWithdrawCryptoWithSetup,
      WithdrawCryptoWith2FA, WithdrawCryptoWithSMS, WithdrawCryptoWithEmail,
      WithdrawCryptoWithWebsiteApproval, WithdrawCryptoWithAPIPermission,
      AutoWithdrawFiat, AutoWithdrawFiatWithAPIPermission, AutoWithdrawFiatWithSetup,
      WithdrawFiatWith2FA, WithdrawFiatWithSMS, WithdrawFiatWithEmail,
      WithdrawFiatWithWebsiteApproval, WithdrawFiatWithAPIPermission,
      WithdrawCryptoViaWebsiteOnly, WithdrawFiatViaWebsiteOnly]"

definition withdrawal_labels :: "(uint32 \<times> string) list" where
  "withdrawal_labels =
     [(AutoWithdrawCrypto, AutoWithdrawCryptoText),
      (AutoWithdrawCryptoWithAPIPermission, AutoWithdrawCryptoWithAPIPermissionText),
      (AutoWithdrawCryptoWithSetup, AutoWithdrawCryptoWithSetupText),
      (WithdrawCryptoWith2FA, WithdrawCryptoWith2FAText),
      (WithdrawCryptoWithSMS, WithdrawCryptoWithSMSText),
      (WithdrawCryptoWithEmail, WithdrawCryptoWithEmailText),
      (WithdrawCryptoWithWebsiteApproval, WithdrawCryptoWithWebsiteApprovalText),
      (WithdrawCryptoWithAPIPermission, WithdrawCryptoWithAPIPermissionText),
      (AutoWithdrawFiat, AutoWithdrawFiatText),
      (AutoWithdrawFiatWithAPIPermission, AutoWithdrawFiatWithAPIPermissionText),
      (AutoWithdrawFiatWithSetup, AutoWithdrawFiatWithSetupText),
      (WithdrawFiatWith2FA, WithdrawFiatWith2FAText),
      (WithdrawFiatWithSMS, WithdrawFiatWithSMSText),
      (WithdrawFiatWithEmail, WithdrawFiatWithEmailText),
      (WithdrawFiatWithWebsiteApproval, WithdrawFiatWithWebsiteApprovalText),
      (WithdrawFiatWithAPIPermission, WithdrawFiatWithAPIPermissionText),
      (WithdrawCryptoViaWebsiteOnly, WithdrawCryptoViaWebsiteOnlyText),
      (WithdrawFiatViaWebsiteOnly, WithdrawFiatViaWebsiteOnlyText)]"

text \<open>
  Building a mask: the drivers' \<^verbatim>\<open>SetDefaults\<close> combine flags with Go's bitwise or,
  \<^verbatim>\<open>exchange.AutoWithdrawCrypto | exchange.AutoWithdrawFiat\<close>. \<open>encode\<close> is that
  or, taken over a list of flags (the empty list gives the mask 0).
\<close>

definition encode :: "uint32 list \<Rightarrow> uint32" where
  "encode fs = fold (OR) fs 0"

text \<open>
  Modelled from the spec: the decoder of the capability mask, which lives in exchange.go and
  is not among the source files. Section 4.3 gives
  \<^verbatim>\<open>decode(mask) -> ordered set of active capability labels\<close> and
  \<^verbatim>\<open>supports(mask, flag) -> bool\<close>; section 3 says that decoding yields the subset of
  active flags and their labels, with an explicit "none" / "unknown" sentinel when no bit
  matches. Each active bit of the 32-bit field, in ascending bit position, is returned with
  the label the constant block declares for it, or with \<open>UnknownWithdrawalTypeText\<close> when the
  block names no flag at that position; a mask with no active bit decodes to the single
  entry \<open>(NoAPIWithdrawalMethods, NoAPIWithdrawalMethodsText)\<close>.
\<close>

definition supports :: "uint32 \<Rightarrow> uint32 \<Rightarrow> bool" where
  "supports m flag = (m AND flag \<noteq> 0)"

definition flag_label :: "uint32 \<Rightarrow> string" where
  "flag_label f =
     (case map_of withdrawal_labels f of
        Some l \<Rightarrow> l
      | None \<Rightarrow> UnknownWithdrawalTypeText)"

definition active_flags :: "uint32 \<Rightarrow> uint32 list" where
  "active_flags m = filter (supports m) (map (\<lambda>i. push_bit i 1) [0..<32])"

definition decode :: "uint32 \<Rightarrow> (uint32 \<times> string) list" where
  "decode m =
     (if active_flags m = []
      then [(NoAPIWithdrawalMethods, NoAPIWithdrawalMethodsText)]
      else map (\<lambda>f. (f, flag_label f)) (active_flags m))"

section \<open>Values shared by the drivers\<close>

text \<open>
  Go's \<^verbatim>\<open>error\<close> values. The drivers build theirs with \<^verbatim>\<open>errors.New\<close>; \<open>NotFound\<close> and
  \<open>Timeout\<close> are the conditions section 7 of the spec names for a cache read miss and for
  an admission that exceeded its deadline. A Go function returning \<^verbatim>\<open>(T, error)\<close> is a
  function into \<open>T \<times> error option\<close>, \<open>None\<close> being \<^verbatim>\<open>nil\<close>: Go hands back a value
  beside the error, and the drivers return the zero value there.
\<close>

datatype error = errors_New string | NotFound | Timeout

text \<open>
  \<^verbatim>\<open>float64\<close>. The drivers only copy such values, they never compute with them; the model
  keeps the finite values apart from the infinities and NaN, which
  \<^verbatim>\<open>strconv.ParseFloat\<close> can hand back.
\<close>

datatype float64 = Finite real | PosInf | NegInf | NaN

definition float64_zero :: float64 where
  "float64_zero = Finite 0"

type_synonym int64 = "64 word"

text \<open>
  What a call leaves behind besides its result: it returns, it panics (an index out of
  range), or \<^verbatim>\<open>log.Fatal\<close> ends the process.
\<close>

datatype 'a outcome = Returned 'a | Panicked string | Fatal error

text \<open>
  Modelled from the spec: the currency pair of package \<^verbatim>\<open>pair\<close>, which is not among the
  source files. Section 3: an ordered pair of currency symbols (base, quote) with a
  delimiter as formatting rule; formatting is a pure projection. \<open>Pair_String\<close> stands for
  the source's \<^verbatim>\<open>p.Pair().String()\<close>.
\<close>

record CurrencyPair =
  Delimiter :: string
  FirstCurrency :: string
  SecondCurrency :: string

definition CurrencyPair_zero :: CurrencyPair where
  "CurrencyPair_zero = \<lparr>Delimiter = [], FirstCurrency = [], SecondCurrency = []\<rparr>"

definition Pair_String :: "CurrencyPair \<Rightarrow> string" where
  "Pair_String p = FirstCurrency p @ Delimiter p @ SecondCurrency p"

type_synonym CurrencyItem = string
type_synonym OrderSide = string
type_synonym OrderType = string

section \<open>The structures of exchange\_types.go\<close>

record AccountCurrencyInfo =
  CurrencyName :: string
  TotalValue :: float64
  Hold :: float64

record AccountInfo =
  ExchangeName :: string
  Currencies :: "AccountCurrencyInfo list"

definition AccountInfo_zero :: AccountInfo where
  "AccountInfo_zero = \<lparr>ExchangeName = [], Currencies = []\<rparr>"

record TradeHistory =
  TradeHistory_Timestamp :: int64
  TID :: int64
  TradeHistory_Price :: float64
  TradeHistory_Amount :: float64
  TradeHistory_Exchange :: string
  TradeHistory_Type :: string

record OrderDetail =
  OrderDetail_Exchange :: string
  ID :: int64
  BaseCurrency :: string
  QuoteCurrency :: string
  OrderDetail_OrderSide :: string
  OrderDetail_OrderType :: string
  CreationTime :: int64
  Status :: string
  OrderDetail_Price :: float64
  OrderDetail_Amount :: float64
  OpenVolume :: float64

definition OrderDetail_zero :: OrderDetail where
  "OrderDetail_zero =
     \<lparr>OrderDetail_Exchange = [], ID = 0, BaseCurrency = [], QuoteCurrency = [],
      OrderDetail_OrderSide = [], OrderDetail_OrderType = [], CreationTime = 0,
      Status = [], OrderDetail_Price = float64_zero, OrderDetail_Amount = float64_zero,
      OpenVolume = float64_zero\<rparr>"

record FundHistory =
  FundHistory_ExchangeName :: string
  FundHistory_Status :: string
  TransferID :: int64
  Description :: string
  FundHistory_Timestamp :: int64
  Currency :: string
  FundHistory_Amount :: float64
  FundHistory_Fee :: float64
  TransferType :: string
  CryptoToAddress :: string
  CryptoFromAddress :: string
  CryptoTxID :: string
  BankTo :: string
  BankFrom :: string

record FeaturesEnabled =
  FeaturesEnabled_AutoPairUpdates :: bool

record FeaturesSupported =
  REST :: bool
  FeaturesSupported_Websocket :: bool
  AutoPairUpdates :: bool
  RESTTickerBatching :: bool

record Features =
  Supports :: FeaturesSupported
  Features_Enabled :: FeaturesEnabled

record Endpoints =
  URL :: string
  URLDefault :: string
  URLSecondary :: string
  URLSecondaryDefault :: string
  Endpoints_WebsocketURL :: string

record Credentials =
  Key :: string
  Secret :: string
  ClientID :: string
  PEMKey :: string

record CredentialsValidator =
  RequiresPEM :: bool
  RequiresClientID :: bool
  RequiresBase64DecodeSecret :: bool

record API =
  AuthenticatedSupport :: bool
  PEMKeySupport :: bool
  API_Endpoints :: Endpoints
  API_Credentials :: Credentials
  API_CredentialsValidator :: CredentialsValidator

text \<open>
  \<^verbatim>\<open>Base\<close>, the structure every driver embeds. A field whose Go name is also the name of
  a field of another structure carries the structure's name in front. The types of the
  nonce, of the pair format, of the websocket and of the requester are declared outside the
  source files: the first, third and fourth are type parameters, the two pointers options
  (\<open>None\<close> is \<^verbatim>\<open>nil\<close>), and the pair format has the two fields the drivers write.
  \<^verbatim>\<open>TakerFee, MakerFee, Fee\<close> are three fields.
\<close>

record CurrencyPairFormatConfig =
  Uppercase :: bool
  CurrencyPairFormatConfig_Delimiter :: string

record ('n, 'ws, 'rq) Base =
  Name :: string
  Enabled :: bool
  Verbose :: bool
  APIWithdrawPermissions :: uint32
  Base_API :: API
  Nonce :: 'n
  TakerFee :: float64
  MakerFee :: float64
  Fee :: float64
  BaseCurrencies :: "string list"
  AvailablePairs :: "string list"
  EnabledPairs :: "string list"
  AssetTypes :: "string list"
  PairsLastUpdated :: int64
  Base_Features :: Features
  HTTPTimeout :: int64
  HTTPUserAgent :: string
  WebsocketURL :: string
  RequestCurrencyPairFormat :: CurrencyPairFormatConfig
  ConfigCurrencyPairFormat :: CurrencyPairFormatConfig
  Websocket :: "'ws option"
  Requester :: "'rq option"

section \<open>Market data cache (packages ticker and orderbook)\<close>

text \<open>
  Modelled from the spec: the snapshot types of packages \<^verbatim>\<open>ticker\<close> and \<^verbatim>\<open>orderbook\<close>,
  which are not among the source files. Section 3: a ticker snapshot is
  \<^verbatim>\<open>{bid, ask, last, high, low, volume, pair, timestamp}\<close>; an order-book snapshot is an
  ordered sequence of (price, amount) bid levels, one of ask levels, the exchange name, the
  pair, the asset type and the last-updated time. The field names are those the drivers
  write (\<^verbatim>\<open>tickerPrice.Ask\<close>, \<^verbatim>\<open>orderbook.Item{Amount: .., Price: ..}\<close>,
  \<^verbatim>\<open>orderBook.Bids\<close>).
\<close>

record Price =
  Pair :: CurrencyPair
  Last :: float64
  High :: float64
  Low :: float64
  Bid :: float64
  Ask :: float64
  Volume :: float64
  LastUpdated :: int64

definition Price_zero :: Price where
  "Price_zero =
     \<lparr>Pair = CurrencyPair_zero, Last = float64_zero, High = float64_zero,
      Low = float64_zero, Bid = float64_zero, Ask = float64_zero, Volume = float64_zero,
      LastUpdated = 0\<rparr>"

record Item =
  Amount :: float64
  Item_Price :: float64

record orderbook_Base =
  orderbook_ExchangeName :: string
  orderbook_Pair :: CurrencyPair
  orderbook_AssetType :: string
  Bids :: "Item list"
  Asks :: "Item list"
  orderbook_LastUpdated :: int64

definition orderbook_Base_zero :: orderbook_Base where
  "orderbook_Base_zero =
     \<lparr>orderbook_ExchangeName = [], orderbook_Pair = CurrencyPair_zero,
      orderbook_AssetType = [], Bids = [], Asks = [], orderbook_LastUpdated = 0\<rparr>"

text \<open>
  The process-wide state the drivers act on: the two stores, keyed by (exchange name,
  currency pair, asset type) as in section 3, the trace of calls made to the venues, and
  the errors given to \<^verbatim>\<open>log.Println\<close>. The identity of a pair is its two symbols; the
  delimiter is formatting and is not part of the key. The trace records effects only; no
  function reads it back except to hand it to the venue, whose answer may depend on what
  was asked before.
\<close>

type_synonym cache_key = "string \<times> (string \<times> string) \<times> string"

definition cache_key_of :: "string \<Rightarrow> CurrencyPair \<Rightarrow> string \<Rightarrow> cache_key" where
  "cache_key_of exchangeName p assetType =
     (exchangeName, (FirstCurrency p, SecondCurrency p), assetType)"

datatype request = GetTickerCall string | GetOrderbookCall string

record world =
  Tickers :: "cache_key \<Rightarrow> Price option"
  Orderbooks :: "cache_key \<Rightarrow> orderbook_Base option"
  Requests :: "request list"
  Logged :: "error list"

text \<open>
  Modelled from the spec: the store operations \<^verbatim>\<open>ticker.GetTicker\<close>,
  \<^verbatim>\<open>ticker.ProcessTicker\<close>, \<^verbatim>\<open>orderbook.GetOrderbook\<close> and
  \<^verbatim>\<open>orderbook.ProcessOrderbook\<close>, which are not among the source files. Section 4.2:
  \<^verbatim>\<open>get(key) -> snapshot | NotFound\<close> is read-only and never triggers a fetch;
  \<^verbatim>\<open>put(key, snapshot)\<close> is an unconditional overwrite, last write wins, whole snapshot.
\<close>

definition ticker_GetTicker ::
  "string \<Rightarrow> CurrencyPair \<Rightarrow> string \<Rightarrow> world \<Rightarrow> Price \<times> error option" where
  "ticker_GetTicker exchangeName p tickerType w =
     (case Tickers w (cache_key_of exchangeName p tickerType) of
        Some t \<Rightarrow> (t, None)
      | None \<Rightarrow> (Price_zero, Some NotFound))"

definition ticker_ProcessTicker ::
  "string \<Rightarrow> CurrencyPair \<Rightarrow> Price \<Rightarrow> string \<Rightarrow> world \<Rightarrow> world" where
  "ticker_ProcessTicker exchangeName p tickerNew tickerType w =
     w\<lparr>Tickers := (Tickers w)(cache_key_of exchangeName p tickerType \<mapsto> tickerNew)\<rparr>"

definition orderbook_GetOrderbook ::
  "string \<Rightarrow> CurrencyPair \<Rightarrow> string \<Rightarrow> world \<Rightarrow> orderbook_Base \<times> error option" where
  "orderbook_GetOrderbook exchangeName p orderbookType w =
     (case Orderbooks w (cache_key_of exchangeName p orderbookType) of
        Some ob \<Rightarrow> (ob, None)
      | None \<Rightarrow> (orderbook_Base_zero, Some NotFound))"

definition orderbook_ProcessOrderbook ::
  "string \<Rightarrow> CurrencyPair \<Rightarrow> orderbook_Base \<Rightarrow> string \<Rightarrow> world \<Rightarrow> world" where
  "orderbook_ProcessOrderbook exchangeName p orderbookNew orderbookType w =
     w\<lparr>Orderbooks := (Orderbooks w)(cache_key_of exchangeName p orderbookType \<mapsto> orderbookNew)\<rparr>"

text \<open>
  Modelled from the spec: the accessor \<^verbatim>\<open>GetName\<close> and the setter \<^verbatim>\<open>SetEnabled\<close> of
  \<^verbatim>\<open>Base\<close>, defined in exchange.go, which is not among the source files. Section 2 lists
  a name and an enabled flag among the parts of the Exchange Base; the accessor reads the
  one, the setter writes the other.
\<close>

definition GetName :: "('n, 'ws, 'rq) Base \<Rightarrow> string" where
  "GetName e = Name e"

definition SetEnabled :: "('n, 'ws, 'rq) Base \<Rightarrow> bool \<Rightarrow> ('n, 'ws, 'rq) Base" where
  "SetEnabled e enabled = e\<lparr>Enabled := enabled\<rparr>"

text \<open>
  A call to a venue. The REST methods of the drivers (\<^verbatim>\<open>g.GetTicker\<close>,
  \<^verbatim>\<open>b.GetOrderbook\<close>, ...) are defined outside the source files and reach the network;
  each driver function takes the one it calls as a parameter \<open>api\<close>, a function of the
  calls made so far and of the symbol asked for, and the call is entered in the trace.
\<close>

definition call_venue ::
  "(request list \<Rightarrow> string \<Rightarrow> 'r \<times> error option) \<Rightarrow> (string \<Rightarrow> request) \<Rightarrow> string \<Rightarrow> world
     \<Rightarrow> ('r \<times> error option) \<times> world" where
  "call_venue api kind symbol w =
     (api (Requests w) symbol, w\<lparr>Requests := Requests w @ [kind symbol]\<rparr>)"

section \<open>Gemini (the unnamed source file of package gemini)\<close>

text \<open>
  The venue's answers. Their types are declared outside the source files; the records hold
  the fields the wrapper reads (\<^verbatim>\<open>tick.Ask\<close>, \<^verbatim>\<open>tick.Volume.USD\<close>,
  \<^verbatim>\<open>orderbookNew.Bids[x].Amount\<close>).
\<close>

record gemini_TickerVolume =
  USD :: float64

record gemini_Ticker =
  gemini_Ask :: float64
  gemini_Bid :: float64
  gemini_Last :: float64
  gemini_Volume :: gemini_TickerVolume

record gemini_OrderbookEntry =
  gemini_Price :: float64
  gemini_Amount :: float64

record gemini_Orderbook =
  gemini_Bids :: "gemini_OrderbookEntry list"
  gemini_Asks :: "gemini_OrderbookEntry list"

definition gemini_UpdateTicker ::
  "(request list \<Rightarrow> string \<Rightarrow> gemini_Ticker \<times> error option) \<Rightarrow> ('n, 'ws, 'rq) Base
     \<Rightarrow> CurrencyPair \<Rightarrow> string \<Rightarrow> world \<Rightarrow> (Price \<times> error option) \<times> world" where
  "gemini_UpdateTicker GetTicker g p assetType w =
     (let tickerPrice = Price_zero;
          ((tick, err), w1) = call_venue GetTicker GetTickerCall (Pair_String p) w
      in if err \<noteq> None then ((tickerPrice, err), w1)
         else
           let tickerPrice = tickerPrice\<lparr>Pair := p\<rparr>;
               tickerPrice = tickerPrice\<lparr>Ask := gemini_Ask tick\<rparr>;
               tickerPrice = tickerPrice\<lparr>Bid := gemini_Bid tick\<rparr>;
               tickerPrice = tickerPrice\<lparr>Last := gemini_Last tick\<rparr>;
               tickerPrice = tickerPrice\<lparr>Volume := USD (gemini_Volume tick)\<rparr>;
               w2 = ticker_ProcessTicker (GetName g) p tickerPrice assetType w1
           in (ticker_GetTicker (Name g) p assetType w2, w2))"

definition gemini_FetchTicker ::
  "(request list \<Rightarrow> string \<Rightarrow> gemini_Ticker \<times> error option) \<Rightarrow> ('n, 'ws, 'rq) Base
     \<Rightarrow> CurrencyPair \<Rightarrow> string \<Rightarrow> world \<Rightarrow> (Price \<times> error option) \<times> world" where
  "gemini_FetchTicker GetTicker g p assetType w =
     (let (tickerNew, err) = ticker_GetTicker (GetName g) p assetType w
      in if err \<noteq> None then gemini_UpdateTicker GetTicker g p assetType w
         else ((tickerNew, None), w))"

text \<open>The two \<^verbatim>\<open>for x := range\<close> loops of \<^verbatim>\<open>UpdateOrderbook\<close>: one append per level.\<close>

fun gemini_append_levels :: "gemini_OrderbookEntry list \<Rightarrow> Item list \<Rightarrow> Item list" where
  "gemini_append_levels [] acc = acc"
| "gemini_append_levels (e # rest) acc =
     gemini_append_levels rest
       (acc @ [\<lparr>Amount = gemini_Amount e, Item_Price = gemini_Price e\<rparr>])"

definition gemini_UpdateOrderbook ::
  "(request list \<Rightarrow> string \<Rightarrow> gemini_Orderbook \<times> error option) \<Rightarrow> ('n, 'ws, 'rq) Base
     \<Rightarrow> CurrencyPair \<Rightarrow> string \<Rightarrow> world \<Rightarrow> (orderbook_Base \<times> error option) \<times> world" where
  "gemini_UpdateOrderbook GetOrderbook g p assetType w =
     (let orderBook = orderbook_Base_zero;
          ((orderbookNew, err), w1) = call_venue GetOrderbook GetOrderbookCall (Pair_String p) w
      in if err \<noteq> None then ((orderBook, err), w1)
         else
           let orderBook =
                 orderBook\<lparr>Bids := gemini_append_levels (gemini_Bids orderbookNew) (Bids orderBook)\<rparr>;
               orderBook =
                 orderBook\<lparr>Asks := gemini_append_levels (gemini_Asks orderbookNew) (Asks orderBook)\<rparr>;
               w2 = orderbook_ProcessOrderbook (GetName g) p orderBook assetType w1
           in (orderbook_GetOrderbook (Name g) p assetType w2, w2))"

definition gemini_FetchOrderbook ::
  "(request list \<Rightarrow> string \<Rightarrow> gemini_Orderbook \<times> error option) \<Rightarrow> ('n, 'ws, 'rq) Base
     \<Rightarrow> CurrencyPair \<Rightarrow> string \<Rightarrow> world \<Rightarrow> (orderbook_Base \<times> error option) \<times> world" where
  "gemini_FetchOrderbook GetOrderbook g p assetType w =
     (let (ob, err) = orderbook_GetOrderbook (GetName g) p assetType w
      in if err \<noteq> None then gemini_UpdateOrderbook GetOrderbook g p assetType w
         else ((ob, None), w))"

text \<open>The operations the Gemini wrapper does not back: each body is one \<^verbatim>\<open>return\<close>.\<close>

definition gemini_GetExchangeFundTransferHistory ::
  "('n, 'ws, 'rq) Base \<Rightarrow> FundHistory list \<times> error option" where
  "gemini_GetExchangeFundTransferHistory g =
     (let fundHistory = [] in (fundHistory, Some (errors_New ''not supported on exchange'')))"

definition gemini_GetExchangeHistory ::
  "('n, 'ws, 'rq) Base \<Rightarrow> CurrencyPair \<Rightarrow> string \<Rightarrow> TradeHistory list \<times> error option" where
  "gemini_GetExchangeHistory g p assetType =
     (let resp = [] in (resp, Some (errors_New ''trade history not yet implemented'')))"

definition gemini_SubmitExchangeOrder ::
  "('n, 'ws, 'rq) Base \<Rightarrow> CurrencyPair \<Rightarrow> OrderSide \<Rightarrow> OrderType \<Rightarrow> float64 \<Rightarrow> float64
     \<Rightarrow> string \<Rightarrow> int64 \<times> error option" where
  "gemini_SubmitExchangeOrder g p side orderType amount price clientID =
     (0, Some (errors_New ''not yet implemented''))"

definition gemini_ModifyExchangeOrder ::
  "('n, 'ws, 'rq) Base \<Rightarrow> int64 \<Rightarrow> 'action \<Rightarrow> int64 \<times> error option" where
  "gemini_ModifyExchangeOrder g orderID action = (0, Some (errors_New ''not yet implemented''))"

definition gemini_CancelExchangeOrder :: "('n, 'ws, 'rq) Base \<Rightarrow> int64 \<Rightarrow> error option" where
  "gemini_CancelExchangeOrder g orderID = Some (errors_New ''not yet implemented'')"

definition gemini_CancelAllExchangeOrders :: "('n, 'ws, 'rq) Base \<Rightarrow> error option" where
  "gemini_CancelAllExchangeOrders g = Some (errors_New ''not yet implemented'')"

definition gemini_GetExchangeOrderInfo ::
  "('n, 'ws, 'rq) Base \<Rightarrow> int64 \<Rightarrow> OrderDetail \<times> error option" where
  "gemini_GetExchangeOrderInfo g orderID =
     (let orderDetail = OrderDetail_zero
      in (orderDetail, Some (errors_New ''not yet implemented'')))"

definition gemini_GetExchangeDepositAddress ::
  "('n, 'ws, 'rq) Base \<Rightarrow> CurrencyItem \<Rightarrow> string \<times> error option" where
  "gemini_GetExchangeDepositAddress g cryptocurrency =
     ([], Some (errors_New ''not yet implemented''))"

definition gemini_WithdrawCryptoExchangeFunds ::
  "('n, 'ws, 'rq) Base \<Rightarrow> string \<Rightarrow> CurrencyItem \<Rightarrow> float64 \<Rightarrow> string \<times> error option" where
  "gemini_WithdrawCryptoExchangeFunds g address cryptocurrency amount =
     ([], Some (errors_New ''not yet implemented''))"

definition gemini_WithdrawFiatExchangeFunds ::
  "('n, 'ws, 'rq) Base \<Rightarrow> CurrencyItem \<Rightarrow> float64 \<Rightarrow> string \<times> error option" where
  "gemini_WithdrawFiatExchangeFunds g currency amount =
     ([], Some (errors_New ''not yet implemented''))"

definition gemini_WithdrawFiatExchangeFundsToInternationalBank ::
  "('n, 'ws, 'rq) Base \<Rightarrow> CurrencyItem \<Rightarrow> float64 \<Rightarrow> string \<times> error option" where
  "gemini_WithdrawFiatExchangeFundsToInternationalBank g currency amount =
     ([], Some (errors_New ''not yet implemented''))"

definition gemini_GetWebsocket :: "('n, 'ws, 'rq) Base \<Rightarrow> 'ws option \<times> error option" where
  "gemini_GetWebsocket g = (None, Some (errors_New ''not yet implemented''))"

section \<open>Bitstamp (exchanges/bitstamp/bitstamp\_wrapper.go)\<close>

record bitstamp_Ticker =
  bitstamp_Last :: float64
  bitstamp_High :: float64
  bitstamp_Low :: float64
  bitstamp_Volume :: float64
  bitstamp_Bid :: float64
  bitstamp_Ask :: float64

record bitstamp_OrderbookBase =
  bitstamp_Price :: float64
  bitstamp_Amount :: float64

record bitstamp_Orderbook =
  bitstamp_Bids :: "bitstamp_OrderbookBase list"
  bitstamp_Asks :: "bitstamp_OrderbookBase list"

text \<open>
  \<^verbatim>\<open>b.GetTicker(p.Pair().String(), false)\<close>: the second argument is the constant
  \<^verbatim>\<open>false\<close> and is part of the parameter.
\<close>

definition bitstamp_UpdateTicker ::
  "(request list \<Rightarrow> string \<Rightarrow> bitstamp_Ticker \<times> error option) \<Rightarrow> ('n, 'ws, 'rq) Base
     \<Rightarrow> CurrencyPair \<Rightarrow> string \<Rightarrow> world \<Rightarrow> (Price \<times> error option) \<times> world" where
  "bitstamp_UpdateTicker GetTicker b p assetType w =
     (let tickerPrice = Price_zero;
          ((tick, err), w1) = call_venue GetTicker GetTickerCall (Pair_String p) w
      in if err \<noteq> None then ((tickerPrice, err), w1)
         else
           let tickerPrice = tickerPrice\<lparr>Pair := p\<rparr>;
               tickerPrice = tickerPrice\<lparr>Ask := bitstamp_Ask tick\<rparr>;
               tickerPrice = tickerPrice\<lparr>Bid := bitstamp_Bid tick\<rparr>;
               tickerPrice = tickerPrice\<lparr>Low := bitstamp_Low tick\<rparr>;
               tickerPrice = tickerPrice\<lparr>Last := bitstamp_Last tick\<rparr>;
               tickerPrice = tickerPrice\<lparr>Volume := bitstamp_Volume tick\<rparr>;
               tickerPrice = tickerPrice\<lparr>High := bitstamp_High tick\<rparr>;
               w2 = ticker_ProcessTicker (GetName b) p tickerPrice assetType w1
           in (ticker_GetTicker (Name b) p assetType w2, w2))"

definition bitstamp_FetchTicker ::
  "(request list \<Rightarrow> string \<Rightarrow> bitstamp_Ticker \<times> error option) \<Rightarrow> ('n, 'ws, 'rq) Base
     \<Rightarrow> CurrencyPair \<Rightarrow> string \<Rightarrow> world \<Rightarrow> (Price \<times> error option) \<times> world" where
  "bitstamp_FetchTicker GetTicker b p assetType w =
     (let (tick, err) = ticker_GetTicker (GetName b) p assetType w
      in if err \<noteq> None then bitstamp_UpdateTicker GetTicker b p assetType w
         else ((tick, None), w))"

fun bitstamp_append_levels :: "bitstamp_OrderbookBase list \<Rightarrow> Item list \<Rightarrow> Item list" where
  "bitstamp_append_levels [] acc = acc"
| "bitstamp_append_levels (data # rest) acc =
     bitstamp_append_levels rest
       (acc @ [\<lparr>Amount = bitstamp_Amount data, Item_Price = bitstamp_Price data\<rparr>])"

definition bitstamp_UpdateOrderbook ::
  "(request list \<Rightarrow> string \<Rightarrow> bitstamp_Orderbook \<times> error option) \<Rightarrow> ('n, 'ws, 'rq) Base
     \<Rightarrow> CurrencyPair \<Rightarrow> string \<Rightarrow> world \<Rightarrow> (orderbook_Base \<times> error option) \<times> world" where
  "bitstamp_UpdateOrderbook GetOrderbook b p assetType w =
     (let orderBook = orderbook_Base_zero;
          ((orderbookNew, err), w1) = call_venue GetOrderbook GetOrderbookCall (Pair_String p) w
      in if err \<noteq> None then ((orderBook, err), w1)
         else
           let orderBook =
                 orderBook\<lparr>Bids := bitstamp_append_levels (bitstamp_Bids orderbookNew) (Bids orderBook)\<rparr>;
               orderBook =
                 orderBook\<lparr>Asks := bitstamp_append_levels (bitstamp_Asks orderbookNew) (Asks orderBook)\<rparr>;
               w2 = orderbook_ProcessOrderbook (GetName b) p orderBook assetType w1
           in (orderbook_GetOrderbook (Name b) p assetType w2, w2))"

definition bitstamp_FetchOrderbook ::
  "(request list \<Rightarrow> string \<Rightarrow> bitstamp_Orderbook \<times> error option) \<Rightarrow> ('n, 'ws, 'rq) Base
     \<Rightarrow> CurrencyPair \<Rightarrow> string \<Rightarrow> world \<Rightarrow> (orderbook_Base \<times> error option) \<times> world" where
  "bitstamp_FetchOrderbook GetOrderbook b p assetType w =
     (let (ob, err) = orderbook_GetOrderbook (GetName b) p assetType w
      in if err \<noteq> None then bitstamp_UpdateOrderbook GetOrderbook b p assetType w
         else ((ob, None), w))"

definition bitstamp_GetExchangeFundTransferHistory ::
  "('n, 'ws, 'rq) Base \<Rightarrow> FundHistory list \<times> error option" where
  "bitstamp_GetExchangeFundTransferHistory b =
     (let fundHistory = [] in (fundHistory, Some (errors_New ''not supported on exchange'')))"

definition bitstamp_GetExchangeHistory ::
  "('n, 'ws, 'rq) Base \<Rightarrow> CurrencyPair \<Rightarrow> string \<Rightarrow> TradeHistory list \<times> error option" where
  "bitstamp_GetExchangeHistory b p assetType =
     (let resp = [] in (resp, Some (errors_New ''trade history not yet implemented'')))"

definition bitstamp_SubmitExchangeOrder ::
  "('n, 'ws, 'rq) Base \<Rightarrow> CurrencyPair \<Rightarrow> OrderSide \<Rightarrow> OrderType \<Rightarrow> float64 \<Rightarrow> float64
     \<Rightarrow> string \<Rightarrow> int64 \<times> error option" where
  "bitstamp_SubmitExchangeOrder b p side orderType amount price clientID =
     (0, Some (errors_New ''not yet implemented''))"

definition bitstamp_ModifyExchangeOrder ::
  "('n, 'ws, 'rq) Base \<Rightarrow> int64 \<Rightarrow> 'action \<Rightarrow> int64 \<times> error option" where
  "bitstamp_ModifyExchangeOrder b orderID action = (0, Some (errors_New ''not yet implemented''))"

definition bitstamp_CancelExchangeOrder :: "('n, 'ws, 'rq) Base \<Rightarrow> int64 \<Rightarrow> error option" where
  "bitstamp_CancelExchangeOrder b orderID = Some (errors_New ''not yet implemented'')"

definition bitstamp_CancelAllExchangeOrders :: "('n, 'ws, 'rq) Base \<Rightarrow> error option" where
  "bitstamp_CancelAllExchangeOrders b = Some (errors_New ''not yet implemented'')"

definition bitstamp_GetExchangeOrderInfo ::
  "('n, 'ws, 'rq) Base \<Rightarrow> int64 \<Rightarrow> OrderDetail \<times> error option" where
  "bitstamp_GetExchangeOrderInfo b orderID =
     (let orderDetail = OrderDetail_zero
      in (orderDetail, Some (errors_New ''not yet implemented'')))"

definition bitstamp_GetExchangeDepositAddress ::
  "('n, 'ws, 'rq) Base \<Rightarrow> CurrencyItem \<Rightarrow> string \<times> error option" where
  "bitstamp_GetExchangeDepositAddress b cryptocurrency =
     ([], Some (errors_New ''not yet implemented''))"

definition bitstamp_WithdrawCryptoExchangeFunds ::
  "('n, 'ws, 'rq) Base \<Rightarrow> string \<Rightarrow> CurrencyItem \<Rightarrow> float64 \<Rightarrow> string \<times> error option" where
  "bitstamp_WithdrawCryptoExchangeFunds b address cryptocurrency amount =
     ([], Some (errors_New ''not yet implemented''))"

definition bitstamp_WithdrawFiatExchangeFunds ::
  "('n, 'ws, 'rq) Base \<Rightarrow> CurrencyItem \<Rightarrow> float64 \<Rightarrow> string \<times> error option" where
  "bitstamp_WithdrawFiatExchangeFunds b currency amount =
     ([], Some (errors_New ''not yet implemented''))"

definition bitstamp_WithdrawFiatExchangeFundsToInternationalBank ::
  "('n, 'ws, 'rq) Base \<Rightarrow> CurrencyItem \<Rightarrow> float64 \<Rightarrow> string \<times> error option" where
  "bitstamp_WithdrawFiatExchangeFundsToInternationalBank b currency amount =
     ([], Some (errors_New ''not yet implemented''))"

section \<open>ItBit (exchanges/itbit/itbit\_wrapper.go)\<close>

text \<open>
  The venue's answers: a ticker, and an order book whose levels the wrapper reads as
  \<^verbatim>\<open>data[0]\<close>, the price, and \<^verbatim>\<open>data[1]\<close>, the amount, both strings given to
  \<^verbatim>\<open>strconv.ParseFloat\<close>. The type of the answer is declared outside the source files; a
  level is a list of strings here (a Go slice of strings). Indexing a slice beyond its
  length panics, and the model says so.

  \<^verbatim>\<open>exchange.FormatExchangeCurrency\<close> is defined outside the source files and is the
  parameter \<open>FormatExchangeCurrency\<close>, taken with the \<^verbatim>\<open>.String()\<close> that follows it.
  \<^verbatim>\<open>strconv.ParseFloat(s, 64)\<close> belongs to Go's library and is the parameter
  \<open>ParseFloat\<close>: it returns a value and an error, and the wrapper keeps the value whatever
  the error is.
\<close>

record itbit_Ticker =
  itbit_Bid :: float64
  itbit_Ask :: float64
  LastPrice :: float64
  High24h :: float64
  Low24h :: float64
  Volume24h :: float64

record itbit_OrderbookResponse =
  itbit_Bids :: "string list list"
  itbit_Asks :: "string list list"

definition itbit_UpdateTicker ::
  "(string \<Rightarrow> CurrencyPair \<Rightarrow> string) \<Rightarrow> (request list \<Rightarrow> string \<Rightarrow> itbit_Ticker \<times> error option)
     \<Rightarrow> ('n, 'ws, 'rq) Base \<Rightarrow> CurrencyPair \<Rightarrow> string \<Rightarrow> world
     \<Rightarrow> (Price \<times> error option) \<times> world" where
  "itbit_UpdateTicker FormatExchangeCurrency GetTicker i p assetType w =
     (let tickerPrice = Price_zero;
          ((tick, err), w1) =
             call_venue GetTicker GetTickerCall (FormatExchangeCurrency (Name i) p) w
      in if err \<noteq> None then ((tickerPrice, err), w1)
         else
           let tickerPrice = tickerPrice\<lparr>Pair := p\<rparr>;
               tickerPrice = tickerPrice\<lparr>Ask := itbit_Ask tick\<rparr>;
               tickerPrice = tickerPrice\<lparr>Bid := itbit_Bid tick\<rparr>;
               tickerPrice = tickerPrice\<lparr>Last := LastPrice tick\<rparr>;
               tickerPrice = tickerPrice\<lparr>High := High24h tick\<rparr>;
               tickerPrice = tickerPrice\<lparr>Low := Low24h tick\<rparr>;
               tickerPrice = tickerPrice\<lparr>Volume := Volume24h tick\<rparr>;
               w2 = ticker_ProcessTicker (GetName i) p tickerPrice assetType w1
           in (ticker_GetTicker (Name i) p assetType w2, w2))"

definition itbit_FetchTicker ::
  "(string \<Rightarrow> CurrencyPair \<Rightarrow> string) \<Rightarrow> (request list \<Rightarrow> string \<Rightarrow> itbit_Ticker \<times> error option)
     \<Rightarrow> ('n, 'ws, 'rq) Base \<Rightarrow> CurrencyPair \<Rightarrow> string \<Rightarrow> world
     \<Rightarrow> (Price \<times> error option) \<times> world" where
  "itbit_FetchTicker FormatExchangeCurrency GetTicker i p assetType w =
     (let (tickerNew, err) = ticker_GetTicker (GetName i) p assetType w
      in if err \<noteq> None then itbit_UpdateTicker FormatExchangeCurrency GetTicker i p assetType w
         else ((tickerNew, None), w))"

text \<open>\<^verbatim>\<open>if err != nil { log.Println(err) }\<close>\<close>

definition log_Println :: "error option \<Rightarrow> error list \<Rightarrow> error list" where
  "log_Println err lg = (case err of None \<Rightarrow> lg | Some e \<Rightarrow> lg @ [e])"

text \<open>
  One of the two loops of \<^verbatim>\<open>UpdateOrderbook\<close>, over the levels still to be read, with the
  items appended so far and the log. The price is parsed, and its error logged, before
  \<^verbatim>\<open>data[1]\<close> is read.
\<close>

fun itbit_append_levels ::
  "(string \<Rightarrow> float64 \<times> error option) \<Rightarrow> string list list \<Rightarrow> Item list \<Rightarrow> error list
     \<Rightarrow> Item list outcome \<times> error list" where
  "itbit_append_levels ParseFloat [] acc lg = (Returned acc, lg)"
| "itbit_append_levels ParseFloat (data # rest) acc lg =
     (if length data \<le> 0 then (Panicked ''index out of range'', lg)
      else
        let (price, err) = ParseFloat (data ! 0);
            lg = log_Println err lg
        in if length data \<le> 1 then (Panicked ''index out of range'', lg)
           else
             let (amount, err) = ParseFloat (data ! 1);
                 lg = log_Println err lg
             in itbit_append_levels ParseFloat rest
                  (acc @ [\<lparr>Amount = amount, Item_Price = price\<rparr>]) lg)"

definition itbit_UpdateOrderbook ::
  "(string \<Rightarrow> CurrencyPair \<Rightarrow> string) \<Rightarrow> (string \<Rightarrow> float64 \<times> error option)
     \<Rightarrow> (request list \<Rightarrow> string \<Rightarrow> itbit_OrderbookResponse \<times> error option)
     \<Rightarrow> ('n, 'ws, 'rq) Base \<Rightarrow> CurrencyPair \<Rightarrow> string \<Rightarrow> world
     \<Rightarrow> (orderbook_Base \<times> error option) outcome \<times> world" where
  "itbit_UpdateOrderbook FormatExchangeCurrency ParseFloat GetOrderbook i p assetType w =
     (let orderBook = orderbook_Base_zero;
          ((orderbookNew, err), w1) =
             call_venue GetOrderbook GetOrderbookCall (FormatExchangeCurrency (Name i) p) w
      in if err \<noteq> None then (Returned (orderBook, err), w1)
         else
           case itbit_append_levels ParseFloat (itbit_Bids orderbookNew) (Bids orderBook) (Logged w1) of
             (Panicked msg, lg) \<Rightarrow> (Panicked msg, w1\<lparr>Logged := lg\<rparr>)
           | (Fatal e, lg) \<Rightarrow> (Fatal e, w1\<lparr>Logged := lg\<rparr>)
           | (Returned bids, lg) \<Rightarrow>
               let orderBook = orderBook\<lparr>Bids := bids\<rparr>;
                   w2 = w1\<lparr>Logged := lg\<rparr>
               in case itbit_append_levels ParseFloat (itbit_Asks orderbookNew) (Asks orderBook) (Logged w2) of
                    (Panicked msg, lg) \<Rightarrow> (Panicked msg, w2\<lparr>Logged := lg\<rparr>)
                  | (Fatal e, lg) \<Rightarrow> (Fatal e, w2\<lparr>Logged := lg\<rparr>)
                  | (Returned asks, lg) \<Rightarrow>
                      let orderBook = orderBook\<lparr>Asks := asks\<rparr>;
                          w3 = w2\<lparr>Logged := lg\<rparr>;
                          w4 = orderbook_ProcessOrderbook (GetName i) p orderBook assetType w3
                      in (Returned (orderbook_GetOrderbook (Name i) p assetType w4), w4))"

definition itbit_FetchOrderbook ::
  "(string \<Rightarrow> CurrencyPair \<Rightarrow> string) \<Rightarrow> (string \<Rightarrow> float64 \<times> error option)
     \<Rightarrow> (request list \<Rightarrow> string \<Rightarrow> itbit_OrderbookResponse \<times> error option)
     \<Rightarrow> ('n, 'ws, 'rq) Base \<Rightarrow> CurrencyPair \<Rightarrow> string \<Rightarrow> world
     \<Rightarrow> (orderbook_Base \<times> error option) outcome \<times> world" where
  "itbit_FetchOrderbook FormatExchangeCurrency ParseFloat GetOrderbook i p assetType w =
     (let (ob, err) = orderbook_GetOrderbook (GetName i) p assetType w
      in if err \<noteq> None
         then itbit_UpdateOrderbook FormatExchangeCurrency ParseFloat GetOrderbook i p assetType w
         else (Returned (ob, None), w))"

definition itbit_GetExchangeFundTransferHistory ::
  "('n, 'ws, 'rq) Base \<Rightarrow> FundHistory list \<times> error option" where
  "itbit_GetExchangeFundTransferHistory i =
     (let fundHistory = [] in (fundHistory, Some (errors_New ''not supported on exchange'')))"

definition itbit_GetExchangeHistory ::
  "('n, 'ws, 'rq) Base \<Rightarrow> CurrencyPair \<Rightarrow> string \<Rightarrow> TradeHistory list \<times> error option" where
  "itbit_GetExchangeHistory i p assetType =
     (let resp = [] in (resp, Some (errors_New ''trade history not yet implemented'')))"

definition itbit_SubmitExchangeOrder ::
  "('n, 'ws, 'rq) Base \<Rightarrow> CurrencyPair \<Rightarrow> OrderSide \<Rightarrow> OrderType \<Rightarrow> float64 \<Rightarrow> float64
     \<Rightarrow> string \<Rightarrow> int64 \<times> error option" where
  "itbit_SubmitExchangeOrder i p side orderType amount price clientID =
     (0, Some (errors_New ''not yet implemented''))"

definition itbit_ModifyExchangeOrder ::
  "('n, 'ws, 'rq) Base \<Rightarrow> int64 \<Rightarrow> 'action \<Rightarrow> int64 \<times> error option" where
  "itbit_ModifyExchangeOrder i orderID action = (0, Some (errors_New ''not yet implemented''))"

definition itbit_CancelExchangeOrder :: "('n, 'ws, 'rq) Base \<Rightarrow> int64 \<Rightarrow> error option" where
  "itbit_CancelExchangeOrder i orderID = Some (errors_New ''not yet implemented'')"

definition itbit_CancelAllExchangeOrders :: "('n, 'ws, 'rq) Base \<Rightarrow> error option" where
  "itbit_CancelAllExchangeOrders i = Some (errors_New ''not yet implemented'')"

definition itbit_GetExchangeOrderInfo ::
  "('n, 'ws, 'rq) Base \<Rightarrow> int64 \<Rightarrow> OrderDetail \<times> error option" where
  "itbit_GetExchangeOrderInfo i orderID =
     (let orderDetail = OrderDetail_zero
      in (orderDetail, Some (errors_New ''not yet implemented'')))"

definition itbit_GetExchangeDepositAddress ::
  "('n, 'ws, 'rq) Base \<Rightarrow> CurrencyItem \<Rightarrow> string \<times> error option" where
  "itbit_GetExchangeDepositAddress i cryptocurrency =
     ([], Some (errors_New ''not yet implemented''))"

definition itbit_WithdrawCryptoExchangeFunds ::
  "('n, 'ws, 'rq) Base \<Rightarrow> string \<Rightarrow> CurrencyItem \<Rightarrow> float64 \<Rightarrow> string \<times> error option" where
  "itbit_WithdrawCryptoExchangeFunds i address cryptocurrency amount =
     ([], Some (errors_New ''not yet implemented''))"

definition itbit_WithdrawFiatExchangeFunds ::
  "('n, 'ws, 'rq) Base \<Rightarrow> CurrencyItem \<Rightarrow> float64 \<Rightarrow> string \<times> error option" where
  "itbit_WithdrawFiatExchangeFunds i currency amount =
     ([], Some (errors_New ''not yet implemented''))"

definition itbit_WithdrawFiatExchangeFundsToInternationalBank ::
  "('n, 'ws, 'rq) Base \<Rightarrow> CurrencyItem \<Rightarrow> float64 \<Rightarrow> string \<times> error option" where
  "itbit_WithdrawFiatExchangeFundsToInternationalBank i currency amount =
     ([], Some (errors_New ''not yet implemented''))"

definition itbit_GetWebsocket :: "('n, 'ws, 'rq) Base \<Rightarrow> 'ws option \<times> error option" where
  "itbit_GetWebsocket i = (None, Some (errors_New ''not yet implemented''))"

section \<open>BTCC (exchanges/btcc/btcc\_wrapper.go)\<close>

text \<open>
  The market-data and account operations of the BTCC wrapper are commented out down to
  one \<^verbatim>\<open>return\<close> each: they read no cache and call no venue.
\<close>

definition btcc_UpdateTicker ::
  "('n, 'ws, 'rq) Base \<Rightarrow> CurrencyPair \<Rightarrow> string \<Rightarrow> Price \<times> error option" where
  "btcc_UpdateTicker b p assetType = (Price_zero, Some (errors_New ''REST NOT SUPPORTED''))"

definition btcc_FetchTicker ::
  "('n, 'ws, 'rq) Base \<Rightarrow> CurrencyPair \<Rightarrow> string \<Rightarrow> Price \<times> error option" where
  "btcc_FetchTicker b p assetType = (Price_zero, Some (errors_New ''REST NOT SUPPORTED''))"

definition btcc_FetchOrderbook ::
  "('n, 'ws, 'rq) Base \<Rightarrow> CurrencyPair \<Rightarrow> string \<Rightarrow> orderbook_Base \<times> error option" where
  "btcc_FetchOrderbook b p assetType =
     (orderbook_Base_zero, Some (errors_New ''REST NOT SUPPORTED''))"

definition btcc_UpdateOrderbook ::
  "('n, 'ws, 'rq) Base \<Rightarrow> CurrencyPair \<Rightarrow> string \<Rightarrow> orderbook_Base \<times> error option" where
  "btcc_UpdateOrderbook b p assetType =
     (orderbook_Base_zero, Some (errors_New ''REST NOT SUPPORTED''))"

definition btcc_GetExchangeAccountInfo ::
  "('n, 'ws, 'rq) Base \<Rightarrow> AccountInfo \<times> error option" where
  "btcc_GetExchangeAccountInfo b = (AccountInfo_zero, Some (errors_New ''REST NOT SUPPORTED''))"

definition btcc_GetExchangeFundTransferHistory ::
  "('n, 'ws, 'rq) Base \<Rightarrow> FundHistory list \<times> error option" where
  "btcc_GetExchangeFundTransferHistory b = ([], Some (errors_New ''REST NOT SUPPORTED''))"

definition btcc_GetExchangeHistory ::
  "('n, 'ws, 'rq) Base \<Rightarrow> CurrencyPair \<Rightarrow> string \<Rightarrow> TradeHistory list \<times> error option" where
  "btcc_GetExchangeHistory b p assetType = ([], Some (errors_New ''REST NOT SUPPORTED''))"

definition btcc_SubmitExchangeOrder ::
  "('n, 'ws, 'rq) Base \<Rightarrow> CurrencyPair \<Rightarrow> OrderSide \<Rightarrow> OrderType \<Rightarrow> float64 \<Rightarrow> float64
     \<Rightarrow> string \<Rightarrow> int64 \<times> error option" where
  "btcc_SubmitExchangeOrder b p side orderType amount price clientID =
     (0, Some (errors_New ''not yet implemented''))"

definition btcc_ModifyExchangeOrder ::
  "('n, 'ws, 'rq) Base \<Rightarrow> int64 \<Rightarrow> 'action \<Rightarrow> int64 \<times> error option" where
  "btcc_ModifyExchangeOrder b orderID action = (0, Some (errors_New ''not yet implemented''))"

definition btcc_CancelExchangeOrder :: "('n, 'ws, 'rq) Base \<Rightarrow> int64 \<Rightarrow> error option" where
  "btcc_CancelExchangeOrder b orderID = Some (errors_New ''not yet implemented'')"

definition btcc_CancelAllExchangeOrders :: "('n, 'ws, 'rq) Base \<Rightarrow> error option" where
  "btcc_CancelAllExchangeOrders b = Some (errors_New ''not yet implemented'')"

definition btcc_GetExchangeOrderInfo ::
  "('n, 'ws, 'rq) Base \<Rightarrow> int64 \<Rightarrow> OrderDetail \<times> error option" where
  "btcc_GetExchangeOrderInfo b orderID =
     (let orderDetail = OrderDetail_zero
      in (orderDetail, Some (errors_New ''not yet implemented'')))"

definition btcc_GetExchangeDepositAddress ::
  "('n, 'ws, 'rq) Base \<Rightarrow> CurrencyItem \<Rightarrow> string \<times> error option" where
  "btcc_GetExchangeDepositAddress b cryptocurrency =
     ([], Some (errors_New ''not yet implemented''))"

definition btcc_WithdrawCryptoExchangeFunds ::
  "('n, 'ws, 'rq) Base \<Rightarrow> string \<Rightarrow> CurrencyItem \<Rightarrow> float64 \<Rightarrow> string \<times> error option" where
  "btcc_WithdrawCryptoExchangeFunds b address cryptocurrency amount =
     ([], Some (errors_New ''not yet implemented''))"

definition btcc_WithdrawFiatExchangeFunds ::
  "('n, 'ws, 'rq) Base \<Rightarrow> CurrencyItem \<Rightarrow> float64 \<Rightarrow> string \<times> error option" where
  "btcc_WithdrawFiatExchangeFunds b currency amount =
     ([], Some (errors_New ''not yet implemented''))"

definition btcc_WithdrawFiatExchangeFundsToInternationalBank ::
  "('n, 'ws, 'rq) Base \<Rightarrow> CurrencyItem \<Rightarrow> float64 \<Rightarrow> string \<times> error option" where
  "btcc_WithdrawFiatExchangeFundsToInternationalBank b currency amount =
     ([], Some (errors_New ''not yet implemented''))"

section \<open>Setup\<close>

text \<open>
  \<^verbatim>\<open>config.ExchangeConfig\<close> is declared outside the source files; the record holds the
  fields the four \<^verbatim>\<open>Setup\<close> functions read: \<^verbatim>\<open>exch.Enabled\<close>, \<^verbatim>\<open>exch.UseSandbox\<close>,
  \<^verbatim>\<open>exch.Name\<close>, \<^verbatim>\<open>exch.Features.Enabled.Websocket\<close> and
  \<^verbatim>\<open>exch.API.Endpoints.WebsocketURL\<close>.

  \<^verbatim>\<open>SetupDefaults\<close> and \<^verbatim>\<open>WebsocketSetup\<close> are methods of \<^verbatim>\<open>Base\<close> defined outside the
  source files. They are parameters: functions of the receiver and the arguments that give
  the receiver back, changed, with an error. (The first argument of \<^verbatim>\<open>WebsocketSetup\<close>,
  the driver's own \<^verbatim>\<open>WsConnect\<close>, is part of the parameter.) The constants
  \<^verbatim>\<open>geminiSandboxAPIURL\<close>, \<^verbatim>\<open>BitstampPusherKey\<close> and \<^verbatim>\<open>btccSocketioAddress\<close> are
  parameters too. A \<^verbatim>\<open>Setup\<close> returns nothing and changes its receiver: the model returns
  the receiver, or \<open>Fatal\<close> where \<^verbatim>\<open>log.Fatal(err)\<close> ends the process.
\<close>

record ExchangeConfig =
  ExchangeConfig_Name :: string
  ExchangeConfig_Enabled :: bool
  UseSandbox :: bool
  ExchangeConfig_Features_Enabled_Websocket :: bool
  ExchangeConfig_API_Endpoints_WebsocketURL :: string

definition gemini_Setup ::
  "(('n, 'ws, 'rq) Base \<Rightarrow> ExchangeConfig \<Rightarrow> ('n, 'ws, 'rq) Base \<times> error option) \<Rightarrow> string
     \<Rightarrow> ('n, 'ws, 'rq) Base \<Rightarrow> ExchangeConfig \<Rightarrow> ('n, 'ws, 'rq) Base outcome" where
  "gemini_Setup SetupDefaults geminiSandboxAPIURL g exch =
     (if \<not> ExchangeConfig_Enabled exch then Returned (SetEnabled g False)
      else
        case SetupDefaults g exch of
          (g, Some err) \<Rightarrow> Fatal err
        | (g, None) \<Rightarrow>
            if UseSandbox exch
            then Returned
                   (g\<lparr>Base_API := (Base_API g)
                        \<lparr>API_Endpoints := (API_Endpoints (Base_API g))\<lparr>URL := geminiSandboxAPIURL\<rparr>\<rparr>\<rparr>)
            else Returned g)"

definition bitstamp_Setup ::
  "(('n, 'ws, 'rq) Base \<Rightarrow> ExchangeConfig \<Rightarrow> ('n, 'ws, 'rq) Base \<times> error option)
     \<Rightarrow> (('n, 'ws, 'rq) Base \<Rightarrow> string \<Rightarrow> bool \<Rightarrow> string \<Rightarrow> string \<Rightarrow> ('n, 'ws, 'rq) Base \<times> error option)
     \<Rightarrow> string \<Rightarrow> ('n, 'ws, 'rq) Base \<Rightarrow> ExchangeConfig \<Rightarrow> ('n, 'ws, 'rq) Base outcome" where
  "bitstamp_Setup SetupDefaults WebsocketSetup BitstampPusherKey b exch =
     (if \<not> ExchangeConfig_Enabled exch then Returned (SetEnabled b False)
      else
        case SetupDefaults b exch of
          (b, Some err) \<Rightarrow> Fatal err
        | (b, None) \<Rightarrow>
            (case WebsocketSetup b (ExchangeConfig_Name exch)
                    (ExchangeConfig_Features_Enabled_Websocket exch) BitstampPusherKey
                    (ExchangeConfig_API_Endpoints_WebsocketURL exch) of
               (b, Some err) \<Rightarrow> Fatal err
             | (b, None) \<Rightarrow> Returned b))"

definition itbit_Setup ::
  "(('n, 'ws, 'rq) Base \<Rightarrow> ExchangeConfig \<Rightarrow> ('n, 'ws, 'rq) Base \<times> error option)
     \<Rightarrow> ('n, 'ws, 'rq) Base \<Rightarrow> ExchangeConfig \<Rightarrow> ('n, 'ws, 'rq) Base outcome" where
  "itbit_Setup SetupDefaults i exch =
     (if \<not> ExchangeConfig_Enabled exch then Returned (SetEnabled i False)
      else
        case SetupDefaults i exch of
          (i, Some err) \<Rightarrow> Fatal err
        | (i, None) \<Rightarrow> Returned i)"

definition btcc_Setup ::
  "(('n, 'ws, 'rq) Base \<Rightarrow> ExchangeConfig \<Rightarrow> ('n, 'ws, 'rq) Base \<times> error option)
     \<Rightarrow> (('n, 'ws, 'rq) Base \<Rightarrow> string \<Rightarrow> bool \<Rightarrow> string \<Rightarrow> string \<Rightarrow> ('n, 'ws, 'rq) Base \<times> error option)
     \<Rightarrow> string \<Rightarrow> ('n, 'ws, 'rq) Base \<Rightarrow> ExchangeConfig \<Rightarrow> ('n, 'ws, 'rq) Base outcome" where
  "btcc_Setup SetupDefaults WebsocketSetup btccSocketioAddress b exch =
     (if \<not> ExchangeConfig_Enabled exch then Returned (SetEnabled b False)
      else
        case SetupDefaults b exch of
          (b, Some err) \<Rightarrow> Fatal err
        | (b, None) \<Rightarrow>
            (case WebsocketSetup b (ExchangeConfig_Name exch)
                    (ExchangeConfig_Features_Enabled_Websocket exch) btccSocketioAddress
                    (ExchangeConfig_API_Endpoints_WebsocketURL exch) of
               (b, Some err) \<Rightarrow> Fatal err
             | (b, None) \<Rightarrow> Returned b))"

section \<open>Rate limiter and request dispatcher (package request)\<close>

text \<open>
  Modelled from the spec: the rate limiter and the requester of package \<^verbatim>\<open>request\<close>, which
  is not among the source files. Section 3: a rate limit is
  \<^verbatim>\<open>{window duration, max calls in window}\<close>, with the invariant that the calls admitted
  within any sliding/window period never exceed the maximum; a dispatcher owns one rate
  limit per call class (authenticated, unauthenticated) and one shared HTTP client
  configuration, and the two classes never share budget. Section 2: the limiter is a
  token-refill counter bound to a time window and a maximum call count. Section 4.1:
  \<^verbatim>\<open>admit(class) -> acquired-slot | blocks | fails-with-timeout\<close>; admission blocks the
  caller until a slot is available within the configured window, or until an optional
  deadline elapses, in which case it fails with \<open>Timeout\<close>; calls in excess of the maximum
  within the window wait for the window to roll over.

  Time is a number of nanoseconds, as Go's \<^verbatim>\<open>time.Duration\<close>. There are as many tokens as
  the maximum; an admission takes one, and a token is refilled one window after it was
  taken. The state of a limit is the list of the times at which the tokens now in use were
  taken, oldest first. \<open>admit\<close> is given the time of the request and the optional deadline.
  With a token free the caller is admitted at once; otherwise it waits for the oldest
  token to be refilled, or times out if the deadline comes first; a limit with maximum 0
  never has a token. It returns the time at which the caller goes on.
\<close>

definition time_Second :: nat where
  "time_Second = 1000000000"

record RateLimit =
  Duration :: nat
  Rate :: nat

definition NewRateLimit :: "nat \<Rightarrow> nat \<Rightarrow> RateLimit" where
  "NewRateLimit d rate = \<lparr>Duration = d, Rate = rate\<rparr>"

record 'h Requester =
  Requester_Name :: string
  AuthLimit :: RateLimit
  UnauthLimit :: RateLimit
  HTTPClient :: 'h

definition request_New :: "string \<Rightarrow> RateLimit \<Rightarrow> RateLimit \<Rightarrow> 'h \<Rightarrow> 'h Requester" where
  "request_New name authLimit unauthLimit httpRequester =
     \<lparr>Requester_Name = name, AuthLimit = authLimit, UnauthLimit = unauthLimit,
      HTTPClient = httpRequester\<rparr>"










section \<open>ItBit's defaults\<close>

text \<open>
  \<^verbatim>\<open>SetDefaults\<close> of the ItBit wrapper. The constants \<^verbatim>\<open>itbitAuthRate\<close>,
  \<^verbatim>\<open>itbitUnauthRate\<close>, \<^verbatim>\<open>itbitAPIURL\<close> and \<^verbatim>\<open>ticker.Spot\<close> are declared outside the
  source files and are parameters, as is the HTTP client
  \<^verbatim>\<open>common.NewHTTPClientWithTimeout(exchange.DefaultHTTPTimeout)\<close>. The two fee literals
  stand for the \<^verbatim>\<open>float64\<close> values nearest to them.
\<close>

definition itbit_SetDefaults ::
  "nat \<Rightarrow> nat \<Rightarrow> string \<Rightarrow> string \<Rightarrow> 'h \<Rightarrow> ('n, 'ws, 'h Requester) Base
     \<Rightarrow> ('n, 'ws, 'h Requester) Base" where
  "itbit_SetDefaults itbitAuthRate itbitUnauthRate itbitAPIURL ticker_Spot httpClient i =
     (let i = i\<lparr>Name := ''ITBIT''\<rparr>;
          i = i\<lparr>Enabled := False\<rparr>;
          i = i\<lparr>MakerFee := Finite (- 0.10)\<rparr>;
          i = i\<lparr>TakerFee := Finite 0.50\<rparr>;
          i = i\<lparr>Verbose := False\<rparr>;
          i = i\<lparr>APIWithdrawPermissions := WithdrawCryptoViaWebsiteOnly OR WithdrawFiatViaWebsiteOnly\<rparr>;
          i = i\<lparr>RequestCurrencyPairFormat :=
                 (RequestCurrencyPairFormat i)\<lparr>CurrencyPairFormatConfig_Delimiter := []\<rparr>\<rparr>;
          i = i\<lparr>RequestCurrencyPairFormat := (RequestCurrencyPairFormat i)\<lparr>Uppercase := True\<rparr>\<rparr>;
          i = i\<lparr>ConfigCurrencyPairFormat :=
                 (ConfigCurrencyPairFormat i)\<lparr>CurrencyPairFormatConfig_Delimiter := []\<rparr>\<rparr>;
          i = i\<lparr>ConfigCurrencyPairFormat := (ConfigCurrencyPairFormat i)\<lparr>Uppercase := True\<rparr>\<rparr>;
          i = i\<lparr>AssetTypes := [ticker_Spot]\<rparr>;
          i = i\<lparr>Base_Features :=
                 \<lparr>Supports =
                    \<lparr>REST = True, FeaturesSupported_Websocket = False, AutoPairUpdates = False,
                     RESTTickerBatching = False\<rparr>,
                  Features_Enabled = \<lparr>FeaturesEnabled_AutoPairUpdates = True\<rparr>\<rparr>\<rparr>;
          i = i\<lparr>Requester :=
                 Some (request_New (Name i) (NewRateLimit time_Second itbitAuthRate)
                         (NewRateLimit time_Second itbitUnauthRate) httpClient)\<rparr>;
          i = i\<lparr>Base_API := (Base_API i)
                 \<lparr>API_Endpoints := (API_Endpoints (Base_API i))\<lparr>URLDefault := itbitAPIURL\<rparr>\<rparr>\<rparr>;
          i = i\<lparr>Base_API := (Base_API i)
                 \<lparr>API_Endpoints := (API_Endpoints (Base_API i))
                    \<lparr>URL := URLDefault (API_Endpoints (Base_API i))\<rparr>\<rparr>\<rparr>;
          i = i\<lparr>Base_API := (Base_API i)
                 \<lparr>API_CredentialsValidator := (API_CredentialsValidator (Base_API i))
                    \<lparr>RequiresClientID := True\<rparr>\<rparr>\<rparr>
      in i)"

section \<open>Go's number parser on the strings used below\<close>

text \<open>
  \<^verbatim>\<open>strconv.ParseFloat(s, 64)\<close> is not part of the repository and the ItBit functions take
  it as a parameter. To run them on concrete levels, \<open>ParseFloat_on_samples\<close> gives Go's
  documented answers on three kinds of string: a string of one to fifteen decimal digits
  is that integer, exactly, with no error; \<^verbatim>\<open>1e400\<close>, well-formed but beyond the largest
  \<^verbatim>\<open>float64\<close>, is +Inf with the range error; a string that is no numeral (the empty
  string, \<^verbatim>\<open>abc\<close>) is 0 with the syntax error. It answers like the last kind on every
  other string, which is not Go's answer on other numerals (\<^verbatim>\<open>1.5\<close>): it is applied to
  strings of the three kinds only.
\<close>

definition is_digit :: "char \<Rightarrow> bool" where
  "is_digit ch = (ch \<in> set ''0123456789'')"

definition digits_value :: "string \<Rightarrow> nat" where
  "digits_value s = fold (\<lambda>ch n. 10 * n + (of_char ch - 48)) s 0"

definition ParseFloat_on_samples :: "string \<Rightarrow> float64 \<times> error option" where
  "ParseFloat_on_samples s =
     (if s \<noteq> [] \<and> length s \<le> 15 \<and> list_all is_digit s
      then (Finite (of_nat (digits_value s)), None)
      else if s = ''1e400''
      then (PosInf, Some (errors_New ''value out of range''))
      else (Finite 0, Some (errors_New ''invalid syntax'')))"

section \<open>Notions used in the statements\<close>

text \<open>
  What one pass of a loop body of ItBit's \<^verbatim>\<open>UpdateOrderbook\<close> appends for a level that
  has both strings, and what it logs: the value \<open>ParseFloat\<close> returned for each string,
  and its errors, the price's first.
\<close>

definition itbit_item :: "(string \<Rightarrow> float64 \<times> error option) \<Rightarrow> string list \<Rightarrow> Item" where
  "itbit_item ParseFloat data =
     \<lparr>Amount = fst (ParseFloat (data ! 1)), Item_Price = fst (ParseFloat (data ! 0))\<rparr>"

definition itbit_level_errors ::
  "(string \<Rightarrow> float64 \<times> error option) \<Rightarrow> string list \<Rightarrow> error list" where
  "itbit_level_errors ParseFloat data =
     log_Println (snd (ParseFloat (data ! 1))) (log_Println (snd (ParseFloat (data ! 0))) [])"

text \<open>ItBit's account information, marked to-do in the source: it asks no venue.\<close>

definition itbit_GetExchangeAccountInfo ::
  "('n, 'ws, 'rq) Base \<Rightarrow> AccountInfo \<times> error option" where
  "itbit_GetExchangeAccountInfo i =
     (let response = AccountInfo_zero;
          response = response\<lparr>ExchangeName := GetName i\<rparr>
      in (response, None))"

section \<open>Concrete inputs\<close>

text \<open>
  Go's zero value of \<^verbatim>\<open>Base\<close> (given the zero value of the nonce), a process that has
  cached nothing and called no venue, a pair, and venues that always answer, always fail,
  or fail the first call and answer from then on.
\<close>

definition API_zero :: API where
  "API_zero =
     \<lparr>AuthenticatedSupport = False, PEMKeySupport = False,
      API_Endpoints =
        \<lparr>URL = [], URLDefault = [], URLSecondary = [], URLSecondaryDefault = [],
         Endpoints_WebsocketURL = []\<rparr>,
      API_Credentials = \<lparr>Key = [], Secret = [], ClientID = [], PEMKey = []\<rparr>,
      API_CredentialsValidator =
        \<lparr>RequiresPEM = False, RequiresClientID = False, RequiresBase64DecodeSecret = False\<rparr>\<rparr>"

definition Base_zero :: "'n \<Rightarrow> ('n, 'ws, 'rq) Base" where
  "Base_zero nonce =
     \<lparr>Name = [], Enabled = False, Verbose = False, APIWithdrawPermissions = 0,
      Base_API = API_zero, Nonce = nonce, TakerFee = float64_zero, MakerFee = float64_zero,
      Fee = float64_zero, BaseCurrencies = [], AvailablePairs = [], EnabledPairs = [],
      AssetTypes = [], PairsLastUpdated = 0,
      Base_Features =
        \<lparr>Supports =
           \<lparr>REST = False, FeaturesSupported_Websocket = False, AutoPairUpdates = False,
            RESTTickerBatching = False\<rparr>,
         Features_Enabled = \<lparr>FeaturesEnabled_AutoPairUpdates = False\<rparr>\<rparr>,
      HTTPTimeout = 0, HTTPUserAgent = [], WebsocketURL = [],
      RequestCurrencyPairFormat = \<lparr>Uppercase = False, CurrencyPairFormatConfig_Delimiter = []\<rparr>,
      ConfigCurrencyPairFormat = \<lparr>Uppercase = False, CurrencyPairFormatConfig_Delimiter = []\<rparr>,
      Websocket = None, Requester = None\<rparr>"

definition exchange_named :: "string \<Rightarrow> (nat, unit, unit) Base" where
  "exchange_named name = (Base_zero 0)\<lparr>Name := name, Enabled := True\<rparr>"

definition world_new :: world where
  "world_new = \<lparr>Tickers = Map.empty, Orderbooks = Map.empty, Requests = [], Logged = []\<rparr>"

definition BTCUSD :: CurrencyPair where
  "BTCUSD = \<lparr>Delimiter = [], FirstCurrency = ''BTC'', SecondCurrency = ''USD''\<rparr>"

definition format_plain :: "string \<Rightarrow> CurrencyPair \<Rightarrow> string" where
  "format_plain name p = Pair_String p"

definition answers :: "'r \<Rightarrow> request list \<Rightarrow> string \<Rightarrow> 'r \<times> error option" where
  "answers r reqs symbol = (r, None)"

definition fails :: "'r \<Rightarrow> error \<Rightarrow> request list \<Rightarrow> string \<Rightarrow> 'r \<times> error option" where
  "fails r e reqs symbol = (r, Some e)"

definition fails_once :: "'r \<Rightarrow> error \<Rightarrow> 'r \<Rightarrow> request list \<Rightarrow> string \<Rightarrow> 'r \<times> error option" where
  "fails_once r0 e r reqs symbol = (if reqs = [] then (r0, Some e) else (r, None))"

definition gemini_quote :: gemini_Ticker where
  "gemini_quote =
     \<lparr>gemini_Ask = Finite 101, gemini_Bid = Finite 100, gemini_Last = Finite 100,
      gemini_Volume = \<lparr>USD = Finite 5\<rparr>\<rparr>"

definition gemini_Ticker_zero :: gemini_Ticker where
  "gemini_Ticker_zero =
     \<lparr>gemini_Ask = float64_zero, gemini_Bid = float64_zero, gemini_Last = float64_zero,
      gemini_Volume = \<lparr>USD = float64_zero\<rparr>\<rparr>"


definition bitstamp_book :: bitstamp_Orderbook where
  "bitstamp_book =
     \<lparr>bitstamp_Bids =
        [\<lparr>bitstamp_Price = Finite 100, bitstamp_Amount = Finite 1\<rparr>,
         \<lparr>bitstamp_Price = Finite 99, bitstamp_Amount = Finite 2\<rparr>],
      bitstamp_Asks =
        [\<lparr>bitstamp_Price = Finite 101, bitstamp_Amount = Finite 1\<rparr>,
         \<lparr>bitstamp_Price = Finite 102, bitstamp_Amount = Finite 2\<rparr>]\<rparr>"

definition itbit_book :: itbit_OrderbookResponse where
  "itbit_book =
     \<lparr>itbit_Bids = [[''100'', ''1''], [''abc'', ''2'']],
      itbit_Asks = [[''101'', ''1''], [''102'', '''']]\<rparr>"

definition itbit_book_out_of_range :: itbit_OrderbookResponse where
  "itbit_book_out_of_range = \<lparr>itbit_Bids = [[''1e400'', ''1'']], itbit_Asks = []\<rparr>"

definition itbit_book_short_level :: itbit_OrderbookResponse where
  "itbit_book_short_level = \<lparr>itbit_Bids = [[''100'']], itbit_Asks = []\<rparr>"

definition itbit_OrderbookResponse_zero :: itbit_OrderbookResponse where
  "itbit_OrderbookResponse_zero = \<lparr>itbit_Bids = [], itbit_Asks = []\<rparr>"

definition exchange_disabled_config :: ExchangeConfig where
  "exchange_disabled_config =
     \<lparr>ExchangeConfig_Name = ''ExchangeA'', ExchangeConfig_Enabled = False, UseSandbox = True,
      ExchangeConfig_Features_Enabled_Websocket = True,
      ExchangeConfig_API_Endpoints_WebsocketURL = ''wss://example''\<rparr>"

definition gemini_book_crossed :: gemini_Orderbook where
  "gemini_book_crossed =
     \<lparr>gemini_Bids =
        [\<lparr>gemini_Price = Finite 99, gemini_Amount = Finite 1\<rparr>,
         \<lparr>gemini_Price = Finite 105, gemini_Amount = Finite 2\<rparr>],
      gemini_Asks =
        [\<lparr>gemini_Price = Finite 102, gemini_Amount = Finite 1\<rparr>,
         \<lparr>gemini_Price = Finite 101, gemini_Amount = Finite 2\<rparr>]\<rparr>"

definition gemini_Orderbook_zero :: gemini_Orderbook where
  "gemini_Orderbook_zero = \<lparr>gemini_Bids = [], gemini_Asks = []\<rparr>"

definition cached_quote :: Price where
  "cached_quote = Price_zero\<lparr>Pair := BTCUSD, Bid := Finite 100, Ask := Finite 101\<rparr>"

definition BTC_USD_dashed :: CurrencyPair where
  "BTC_USD_dashed = \<lparr>Delimiter = ''-'', FirstCurrency = ''BTC'', SecondCurrency = ''USD''\<rparr>"

section \<open>Capability model: the flags and the round trip\<close>

lemmas flag_defs =
  AutoWithdrawCrypto_def AutoWithdrawCryptoWithAPIPermission_def
  AutoWithdrawCryptoWithSetup_def WithdrawCryptoWith2FA_def WithdrawCryptoWithSMS_def
  WithdrawCryptoWithEmail_def WithdrawCryptoWithWebsiteApproval_def
  WithdrawCryptoWithAPIPermission_def AutoWithdrawFiat_def
  AutoWithdrawFiatWithAPIPermission_def AutoWithdrawFiatWithSetup_def
  WithdrawFiatWith2FA_def WithdrawFiatWithSMS_def WithdrawFiatWithEmail_def
  WithdrawFiatWithWebsiteApproval_def WithdrawFiatWithAPIPermission_def
  WithdrawCryptoViaWebsiteOnly_def WithdrawFiatViaWebsiteOnly_def

lemma withdrawal_flags_powers: "withdrawal_flags = map (\<lambda>i. 2 ^ i) [0..<18]"
  by (simp add: withdrawal_flags_def flag_defs upt_rec)

lemma withdrawal_flags_distinct: "distinct withdrawal_flags"
  by (simp add: withdrawal_flags_def flag_defs)

lemma bit_fold_or:
  "bit (fold (OR) xs (a::uint32)) n \<longleftrightarrow> bit a n \<or> (\<exists>x\<in>set xs. bit x n)"
  by (induction xs arbitrary: a) (auto simp: bit_or_iff)

lemma bit_encode: "bit (encode fs) n \<longleftrightarrow> (\<exists>f\<in>set fs. bit f n)"
  by (simp add: encode_def bit_fold_or)

lemma bit_power_uint32: "bit (2 ^ i :: uint32) n \<longleftrightarrow> i < 32 \<and> n = i"
  by (auto simp: bit_exp_iff)

lemma supports_power: "i < 32 \<Longrightarrow> supports m (2 ^ i) \<longleftrightarrow> bit m i"
  by (simp add: supports_def and_exp_eq_0_iff_not_bit)

lemma flag_in_encode:
  assumes "set fs \<subseteq> set withdrawal_flags" and "f \<in> set withdrawal_flags"
  shows "f \<in> set fs \<longleftrightarrow> encode fs AND f \<noteq> 0"
proof -
  from assms(2) obtain i where i: "i < 18" "f = 2 ^ i"
    by (auto simp: withdrawal_flags_powers)
  have "encode fs AND f \<noteq> 0 \<longleftrightarrow> bit (encode fs) i"
    using i by (simp add: and_exp_eq_0_iff_not_bit)
  also have "\<dots> \<longleftrightarrow> (\<exists>x\<in>set fs. bit x i)"
    by (rule bit_encode)
  also have "\<dots> \<longleftrightarrow> f \<in> set fs"
  proof
    assume "\<exists>x\<in>set fs. bit x i"
    then obtain x where x: "x \<in> set fs" "bit x i" by blast
    with assms(1) obtain j where "j < 18" "x = 2 ^ j"
      by (auto simp: withdrawal_flags_powers)
    with x i show "f \<in> set fs" by (simp add: bit_power_uint32)
  next
    assume "f \<in> set fs"
    moreover have "bit f i" using i by (simp add: bit_power_uint32)
    ultimately show "\<exists>x\<in>set fs. bit x i" by blast
  qed
  finally show ?thesis by simp
qed

text \<open>
  C9. The eighteen flag constants, \<open>AutoWithdrawCrypto\<close> to \<open>WithdrawFiatViaWebsiteOnly\<close>,
  are the powers of two \<open>2 ^ 0\<close> to \<open>2 ^ 17\<close> in this order, so they are pairwise distinct
  and occupy bit positions 0 to 17 of the 32-bit mask without gap or overlap; and two
  selections of flags that give the same mask select the same flags.
\<close>

theorem withdrawal_flags_positions:
  "withdrawal_flags = map (\<lambda>i. push_bit i 1) [0..<18]
   \<and> distinct withdrawal_flags
   \<and> length withdrawal_flags = 18
   \<and> (\<forall>fs gs. set fs \<subseteq> set withdrawal_flags \<and> set gs \<subseteq> set withdrawal_flags
         \<and> encode fs = encode gs \<longrightarrow> set fs = set gs)"
proof -
  have "set fs = set gs"
    if "set fs \<subseteq> set withdrawal_flags" "set gs \<subseteq> set withdrawal_flags" "encode fs = encode gs"
    for fs gs
  proof -
    have "f \<in> set fs \<longleftrightarrow> f \<in> set gs" for f
    proof (cases "f \<in> set withdrawal_flags")
      case True
      then show ?thesis
        using flag_in_encode[OF that(1) True] flag_in_encode[OF that(2) True] that(3) by simp
    next
      case False
      then show ?thesis using that(1,2) by blast
    qed
    then show ?thesis by blast
  qed
  then show ?thesis
    by (simp add: withdrawal_flags_powers withdrawal_flags_distinct [unfolded withdrawal_flags_powers])
qed

theorem withdrawal_flags_positions_witness:
  "set [AutoWithdrawCrypto, AutoWithdrawFiat] \<subseteq> set withdrawal_flags
   \<and> set [AutoWithdrawFiat, AutoWithdrawCrypto, AutoWithdrawFiat] \<subseteq> set withdrawal_flags
   \<and> encode [AutoWithdrawCrypto, AutoWithdrawFiat]
       = encode [AutoWithdrawFiat, AutoWithdrawCrypto, AutoWithdrawFiat]
   \<and> set [AutoWithdrawCrypto, AutoWithdrawFiat]
       = set [AutoWithdrawFiat, AutoWithdrawCrypto, AutoWithdrawFiat]
   \<and> encode [AutoWithdrawCrypto, AutoWithdrawFiat] = 257"
proof -
  have sub: "set [AutoWithdrawCrypto, AutoWithdrawFiat] \<subseteq> set withdrawal_flags"
    "set [AutoWithdrawFiat, AutoWithdrawCrypto, AutoWithdrawFiat] \<subseteq> set withdrawal_flags"
    by (simp_all add: withdrawal_flags_def)
  have enc: "encode [AutoWithdrawCrypto, AutoWithdrawFiat]
       = encode [AutoWithdrawFiat, AutoWithdrawCrypto, AutoWithdrawFiat]"
    "encode [AutoWithdrawCrypto, AutoWithdrawFiat] = 257"
    by (simp_all add: encode_def flag_defs)
  from withdrawal_flags_positions sub enc(1)
  have "set [AutoWithdrawCrypto, AutoWithdrawFiat]
       = set [AutoWithdrawFiat, AutoWithdrawCrypto, AutoWithdrawFiat]"
    by blast
  with sub enc show ?thesis by blast
qed

lemma bit_encode_active_flags: "bit (encode (active_flags m)) n \<longleftrightarrow> bit m n"
proof (cases "n < 32")
  case True
  have "(\<exists>x\<in>set (active_flags m). bit x n) \<longleftrightarrow> bit m n"
    using True by (auto simp: active_flags_def supports_power bit_power_uint32)
  then show ?thesis
    by (simp add: bit_encode)
next
  case False
  then have "\<not> bit m n" and "\<not> bit (encode (active_flags m)) n"
    by (auto dest: bit_imp_le_length)
  then show ?thesis by simp
qed

lemma encode_active_flags: "encode (active_flags m) = m"
  by (rule bit_eqI) (simp add: bit_encode_active_flags)

lemma active_flags_zero: "active_flags 0 = []"
  by (simp add: active_flags_def supports_def)

lemma active_flags_empty: "active_flags m = [] \<longleftrightarrow> m = 0"
proof
  assume "active_flags m = []"
  then have "encode (active_flags m) = 0" by (simp add: encode_def)
  then show "m = 0" by (simp add: encode_active_flags)
qed (simp add: active_flags_zero)

text \<open>
  C4. The mask zero decodes to exactly one entry, the sentinel whose label is
  \<open>NONE, WEBSITE ONLY\<close>; it is the only mask that does; and no mask decodes to the empty
  list.
\<close>

theorem decode_zero_sentinel:
  "decode 0 = [(NoAPIWithdrawalMethods, NoAPIWithdrawalMethodsText)]
   \<and> map snd (decode NoAPIWithdrawalMethods) = [''NONE, WEBSITE ONLY'']
   \<and> (\<forall>m. decode m \<noteq> [])
   \<and> (\<forall>m. (NoAPIWithdrawalMethods, NoAPIWithdrawalMethodsText) \<in> set (decode m) \<longleftrightarrow> m = 0)"
proof -
  have zero: "decode 0 = [(NoAPIWithdrawalMethods, NoAPIWithdrawalMethodsText)]"
    by (simp add: decode_def active_flags_zero)
  have label: "map snd (decode NoAPIWithdrawalMethods) = [''NONE, WEBSITE ONLY'']"
    by (simp add: decode_def active_flags_zero NoAPIWithdrawalMethods_def
        NoAPIWithdrawalMethodsText_def)
  have nonempty: "decode m \<noteq> []" for m
    by (simp add: decode_def)
  have only: "(NoAPIWithdrawalMethods, NoAPIWithdrawalMethodsText) \<in> set (decode m) \<longleftrightarrow> m = 0"
    for m
  proof (cases "m = 0")
    case True
    then show ?thesis by (simp add: zero)
  next
    case False
    have "0 \<notin> set (active_flags m)"
      by (auto simp: active_flags_def)
    then have "(0, l) \<notin> set (map (\<lambda>f. (f, flag_label f)) (active_flags m))" for l
      by auto
    with False show ?thesis
      by (simp add: decode_def active_flags_empty NoAPIWithdrawalMethods_def)
  qed
  from zero label nonempty only show ?thesis by blast
qed

theorem decode_zero_sentinel_witness:
  "(NoAPIWithdrawalMethods, NoAPIWithdrawalMethodsText) \<in> set (decode 0)
   \<and> (NoAPIWithdrawalMethods, NoAPIWithdrawalMethodsText) \<notin> set (decode AutoWithdrawCrypto)
   \<and> decode AutoWithdrawCrypto = [(AutoWithdrawCrypto, AutoWithdrawCryptoText)]"
proof -
  have "AutoWithdrawCrypto \<noteq> 0" by (simp add: flag_defs)
  moreover have "decode AutoWithdrawCrypto = [(AutoWithdrawCrypto, AutoWithdrawCryptoText)]"
    by (simp add: decode_def active_flags_def supports_def flag_label_def withdrawal_labels_def
        flag_defs upt_rec)
  ultimately show ?thesis using decode_zero_sentinel by blast
qed

text \<open>
  C5. For every mask, the bitwise or of the flags that decoding returns is the mask.
\<close>

theorem decode_encode_roundtrip: "encode (map fst (decode m)) = m"
proof (cases "m = 0")
  case True
  then show ?thesis
    by (simp add: decode_def active_flags_zero encode_def NoAPIWithdrawalMethods_def)
next
  case False
  then show ?thesis
    by (simp add: decode_def active_flags_empty comp_def encode_active_flags)
qed

lemma decode_gemini_defaults:
  "decode (AutoWithdrawCryptoWithAPIPermission OR AutoWithdrawCryptoWithSetup
           OR WithdrawFiatViaWebsiteOnly)
   = [(AutoWithdrawCryptoWithAPIPermission, AutoWithdrawCryptoWithAPIPermissionText),
      (AutoWithdrawCryptoWithSetup, AutoWithdrawCryptoWithSetupText),
      (WithdrawFiatViaWebsiteOnly, WithdrawFiatViaWebsiteOnlyText)]"
  by (simp add: decode_def active_flags_def supports_def flag_label_def withdrawal_labels_def
      flag_defs upt_rec)

lemma decode_unnamed_bit: "decode (push_bit 20 1) = [(push_bit 20 1, UnknownWithdrawalTypeText)]"
  by (simp add: decode_def active_flags_def supports_def flag_label_def withdrawal_labels_def
      flag_defs upt_rec)

section \<open>The update and fetch paths of the three REST drivers\<close>

lemmas store_defs =
  ticker_GetTicker_def ticker_ProcessTicker_def orderbook_GetOrderbook_def
  orderbook_ProcessOrderbook_def call_venue_def GetName_def

subsection \<open>The loops append one item per level, in the order received\<close>

lemma gemini_append_levels_eq:
  "gemini_append_levels es acc =
     acc @ map (\<lambda>e. \<lparr>Amount = gemini_Amount e, Item_Price = gemini_Price e\<rparr>) es"
  by (induction es arbitrary: acc) simp_all

lemma bitstamp_append_levels_eq:
  "bitstamp_append_levels es acc =
     acc @ map (\<lambda>e. \<lparr>Amount = bitstamp_Amount e, Item_Price = bitstamp_Price e\<rparr>) es"
  by (induction es arbitrary: acc) simp_all

lemma itbit_append_levels_eq:
  "\<forall>d\<in>set ds. 2 \<le> length d \<Longrightarrow>
   itbit_append_levels P ds acc lg =
     (Returned (acc @ map (itbit_item P) ds), lg @ concat (map (itbit_level_errors P) ds))"
proof (induction ds arbitrary: acc lg)
  case Nil
  then show ?case by simp
next
  case (Cons d ds)
  then have len: "\<not> length d \<le> 0" "\<not> length d \<le> 1" by auto
  have ih: "itbit_append_levels P ds acc' lg' =
     (Returned (acc' @ map (itbit_item P) ds), lg' @ concat (map (itbit_level_errors P) ds))"
    for acc' lg' using Cons by simp
  have lg: "log_Println (snd (P (d ! 1))) (log_Println (snd (P (d ! 0))) lg)
      = lg @ itbit_level_errors P d"
    unfolding itbit_level_errors_def
    by (simp add: log_Println_def split: option.splits)
  show ?case
    using len lg by (simp add: split_beta Let_def ih itbit_item_def del: One_nat_def)
qed

lemma itbit_append_levels_short:
  "length d < 2 \<Longrightarrow> \<exists>msg lg'. itbit_append_levels P (d # ds) acc lg = (Panicked msg, lg')"
  by (cases "length d \<le> 0") (auto simp: split_beta Let_def)


subsection \<open>Tickers\<close>

lemma gemini_FetchTicker_hit:
  "Tickers w (cache_key_of (Name g) p a) = Some t \<Longrightarrow> gemini_FetchTicker GT g p a w = ((t, None), w)"
  by (simp add: gemini_FetchTicker_def store_defs)

lemma gemini_FetchTicker_miss:
  "Tickers w (cache_key_of (Name g) p a) = None \<Longrightarrow>
   gemini_FetchTicker GT g p a w = gemini_UpdateTicker GT g p a w"
  by (simp add: gemini_FetchTicker_def store_defs)

lemma gemini_UpdateTicker_ok:
  "GT (Requests w) (Pair_String p) = (tick, None) \<Longrightarrow>
   gemini_UpdateTicker GT g p a w =
     ((Price_zero\<lparr>Pair := p, Ask := gemini_Ask tick, Bid := gemini_Bid tick,
         Last := gemini_Last tick, Volume := USD (gemini_Volume tick)\<rparr>, None),
      w\<lparr>Tickers := (Tickers w)(cache_key_of (Name g) p a \<mapsto>
            Price_zero\<lparr>Pair := p, Ask := gemini_Ask tick, Bid := gemini_Bid tick,
              Last := gemini_Last tick, Volume := USD (gemini_Volume tick)\<rparr>),
        Requests := Requests w @ [GetTickerCall (Pair_String p)]\<rparr>)"
  by (simp add: gemini_UpdateTicker_def store_defs Let_def)

lemma gemini_UpdateTicker_fail:
  "GT (Requests w) (Pair_String p) = (tick, Some e) \<Longrightarrow>
   gemini_UpdateTicker GT g p a w =
     ((Price_zero, Some e), w\<lparr>Requests := Requests w @ [GetTickerCall (Pair_String p)]\<rparr>)"
  by (simp add: gemini_UpdateTicker_def store_defs Let_def)

lemma bitstamp_FetchTicker_hit:
  "Tickers w (cache_key_of (Name b) p a) = Some t \<Longrightarrow> bitstamp_FetchTicker GT b p a w = ((t, None), w)"
  by (simp add: bitstamp_FetchTicker_def store_defs)

lemma bitstamp_FetchTicker_miss:
  "Tickers w (cache_key_of (Name b) p a) = None \<Longrightarrow>
   bitstamp_FetchTicker GT b p a w = bitstamp_UpdateTicker GT b p a w"
  by (simp add: bitstamp_FetchTicker_def store_defs)

lemma bitstamp_UpdateTicker_ok:
  "GT (Requests w) (Pair_String p) = (tick, None) \<Longrightarrow>
   bitstamp_UpdateTicker GT b p a w =
     ((Price_zero\<lparr>Pair := p, Ask := bitstamp_Ask tick, Bid := bitstamp_Bid tick,
         Low := bitstamp_Low tick, Last := bitstamp_Last tick, Volume := bitstamp_Volume tick,
         High := bitstamp_High tick\<rparr>, None),
      w\<lparr>Tickers := (Tickers w)(cache_key_of (Name b) p a \<mapsto>
            Price_zero\<lparr>Pair := p, Ask := bitstamp_Ask tick, Bid := bitstamp_Bid tick,
              Low := bitstamp_Low tick, Last := bitstamp_Last tick,
              Volume := bitstamp_Volume tick, High := bitstamp_High tick\<rparr>),
        Requests := Requests w @ [GetTickerCall (Pair_String p)]\<rparr>)"
  by (simp add: bitstamp_UpdateTicker_def store_defs Let_def)

lemma bitstamp_UpdateTicker_fail:
  "GT (Requests w) (Pair_String p) = (tick, Some e) \<Longrightarrow>
   bitstamp_UpdateTicker GT b p a w =
     ((Price_zero, Some e), w\<lparr>Requests := Requests w @ [GetTickerCall (Pair_String p)]\<rparr>)"
  by (simp add: bitstamp_UpdateTicker_def store_defs Let_def)

lemma itbit_FetchTicker_hit:
  "Tickers w (cache_key_of (Name i) p a) = Some t \<Longrightarrow> itbit_FetchTicker F GT i p a w = ((t, None), w)"
  by (simp add: itbit_FetchTicker_def store_defs)

lemma itbit_FetchTicker_miss:
  "Tickers w (cache_key_of (Name i) p a) = None \<Longrightarrow>
   itbit_FetchTicker F GT i p a w = itbit_UpdateTicker F GT i p a w"
  by (simp add: itbit_FetchTicker_def store_defs)

lemma itbit_UpdateTicker_ok:
  "GT (Requests w) (F (Name i) p) = (tick, None) \<Longrightarrow>
   itbit_UpdateTicker F GT i p a w =
     ((Price_zero\<lparr>Pair := p, Ask := itbit_Ask tick, Bid := itbit_Bid tick,
         Last := LastPrice tick, High := High24h tick, Low := Low24h tick,
         Volume := Volume24h tick\<rparr>, None),
      w\<lparr>Tickers := (Tickers w)(cache_key_of (Name i) p a \<mapsto>
            Price_zero\<lparr>Pair := p, Ask := itbit_Ask tick, Bid := itbit_Bid tick,
              Last := LastPrice tick, High := High24h tick, Low := Low24h tick,
              Volume := Volume24h tick\<rparr>),
        Requests := Requests w @ [GetTickerCall (F (Name i) p)]\<rparr>)"
  by (simp add: itbit_UpdateTicker_def store_defs Let_def)

lemma itbit_UpdateTicker_fail:
  "GT (Requests w) (F (Name i) p) = (tick, Some e) \<Longrightarrow>
   itbit_UpdateTicker F GT i p a w =
     ((Price_zero, Some e), w\<lparr>Requests := Requests w @ [GetTickerCall (F (Name i) p)]\<rparr>)"
  by (simp add: itbit_UpdateTicker_def store_defs Let_def)

subsection \<open>Order books\<close>

lemma gemini_FetchOrderbook_hit:
  "Orderbooks w (cache_key_of (Name g) p a) = Some ob \<Longrightarrow>
   gemini_FetchOrderbook GO g p a w = ((ob, None), w)"
  by (simp add: gemini_FetchOrderbook_def store_defs)

lemma gemini_FetchOrderbook_miss:
  "Orderbooks w (cache_key_of (Name g) p a) = None \<Longrightarrow>
   gemini_FetchOrderbook GO g p a w = gemini_UpdateOrderbook GO g p a w"
  by (simp add: gemini_FetchOrderbook_def store_defs)

lemma gemini_UpdateOrderbook_ok:
  "GO (Requests w) (Pair_String p) = (new, None) \<Longrightarrow>
   gemini_UpdateOrderbook GO g p a w =
     ((orderbook_Base_zero
         \<lparr>Bids := map (\<lambda>e. \<lparr>Amount = gemini_Amount e, Item_Price = gemini_Price e\<rparr>) (gemini_Bids new),
          Asks := map (\<lambda>e. \<lparr>Amount = gemini_Amount e, Item_Price = gemini_Price e\<rparr>) (gemini_Asks new)\<rparr>,
       None),
      w\<lparr>Orderbooks := (Orderbooks w)(cache_key_of (Name g) p a \<mapsto>
            orderbook_Base_zero
              \<lparr>Bids := map (\<lambda>e. \<lparr>Amount = gemini_Amount e, Item_Price = gemini_Price e\<rparr>) (gemini_Bids new),
               Asks := map (\<lambda>e. \<lparr>Amount = gemini_Amount e, Item_Price = gemini_Price e\<rparr>) (gemini_Asks new)\<rparr>),
        Requests := Requests w @ [GetOrderbookCall (Pair_String p)]\<rparr>)"
  by (simp add: gemini_UpdateOrderbook_def store_defs Let_def gemini_append_levels_eq
      orderbook_Base_zero_def)

lemma gemini_UpdateOrderbook_fail:
  "GO (Requests w) (Pair_String p) = (new, Some e) \<Longrightarrow>
   gemini_UpdateOrderbook GO g p a w =
     ((orderbook_Base_zero, Some e),
      w\<lparr>Requests := Requests w @ [GetOrderbookCall (Pair_String p)]\<rparr>)"
  by (simp add: gemini_UpdateOrderbook_def store_defs Let_def)

lemma bitstamp_FetchOrderbook_hit:
  "Orderbooks w (cache_key_of (Name b) p a) = Some ob \<Longrightarrow>
   bitstamp_FetchOrderbook GO b p a w = ((ob, None), w)"
  by (simp add: bitstamp_FetchOrderbook_def store_defs)

lemma bitstamp_FetchOrderbook_miss:
  "Orderbooks w (cache_key_of (Name b) p a) = None \<Longrightarrow>
   bitstamp_FetchOrderbook GO b p a w = bitstamp_UpdateOrderbook GO b p a w"
  by (simp add: bitstamp_FetchOrderbook_def store_defs)

lemma bitstamp_UpdateOrderbook_ok:
  "GO (Requests w) (Pair_String p) = (new, None) \<Longrightarrow>
   bitstamp_UpdateOrderbook GO b p a w =
     ((orderbook_Base_zero
         \<lparr>Bids := map (\<lambda>e. \<lparr>Amount = bitstamp_Amount e, Item_Price = bitstamp_Price e\<rparr>) (bitstamp_Bids new),
          Asks := map (\<lambda>e. \<lparr>Amount = bitstamp_Amount e, Item_Price = bitstamp_Price e\<rparr>) (bitstamp_Asks new)\<rparr>,
       None),
      w\<lparr>Orderbooks := (Orderbooks w)(cache_key_of (Name b) p a \<mapsto>
            orderbook_Base_zero
              \<lparr>Bids := map (\<lambda>e. \<lparr>Amount = bitstamp_Amount e, Item_Price = bitstamp_Price e\<rparr>) (bitstamp_Bids new),
               Asks := map (\<lambda>e. \<lparr>Amount = bitstamp_Amount e, Item_Price = bitstamp_Price e\<rparr>) (bitstamp_Asks new)\<rparr>),
        Requests := Requests w @ [GetOrderbookCall (Pair_String p)]\<rparr>)"
  by (simp add: bitstamp_UpdateOrderbook_def store_defs Let_def bitstamp_append_levels_eq
      orderbook_Base_zero_def)

lemma bitstamp_UpdateOrderbook_fail:
  "GO (Requests w) (Pair_String p) = (new, Some e) \<Longrightarrow>
   bitstamp_UpdateOrderbook GO b p a w =
     ((orderbook_Base_zero, Some e),
      w\<lparr>Requests := Requests w @ [GetOrderbookCall (Pair_String p)]\<rparr>)"
  by (simp add: bitstamp_UpdateOrderbook_def store_defs Let_def)

lemma itbit_FetchOrderbook_hit:
  "Orderbooks w (cache_key_of (Name i) p a) = Some ob \<Longrightarrow>
   itbit_FetchOrderbook F P GO i p a w = (Returned (ob, None), w)"
  by (simp add: itbit_FetchOrderbook_def store_defs)

lemma itbit_FetchOrderbook_miss:
  "Orderbooks w (cache_key_of (Name i) p a) = None \<Longrightarrow>
   itbit_FetchOrderbook F P GO i p a w = itbit_UpdateOrderbook F P GO i p a w"
  by (simp add: itbit_FetchOrderbook_def store_defs)

lemma itbit_UpdateOrderbook_ok:
  assumes "GO (Requests w) (F (Name i) p) = (new, None)"
    and "\<forall>d\<in>set (itbit_Bids new) \<union> set (itbit_Asks new). 2 \<le> length d"
  shows "itbit_UpdateOrderbook F P GO i p a w =
     (Returned
        (orderbook_Base_zero
           \<lparr>Bids := map (itbit_item P) (itbit_Bids new),
            Asks := map (itbit_item P) (itbit_Asks new)\<rparr>,
         None),
      w\<lparr>Orderbooks := (Orderbooks w)(cache_key_of (Name i) p a \<mapsto>
            orderbook_Base_zero
              \<lparr>Bids := map (itbit_item P) (itbit_Bids new),
               Asks := map (itbit_item P) (itbit_Asks new)\<rparr>),
        Requests := Requests w @ [GetOrderbookCall (F (Name i) p)],
        Logged := Logged w
           @ concat (map (itbit_level_errors P) (itbit_Bids new))
           @ concat (map (itbit_level_errors P) (itbit_Asks new))\<rparr>)"
proof -
  from assms(2) have b: "\<forall>d\<in>set (itbit_Bids new). 2 \<le> length d"
    and a: "\<forall>d\<in>set (itbit_Asks new). 2 \<le> length d" by auto
  show ?thesis
    using assms(1)
    by (simp add: itbit_UpdateOrderbook_def store_defs Let_def itbit_append_levels_eq[OF b]
      itbit_append_levels_eq[OF a] orderbook_Base_zero_def)
qed

lemma itbit_UpdateOrderbook_fail:
  "GO (Requests w) (F (Name i) p) = (new, Some e) \<Longrightarrow>
   itbit_UpdateOrderbook F P GO i p a w =
     (Returned (orderbook_Base_zero, Some e),
      w\<lparr>Requests := Requests w @ [GetOrderbookCall (F (Name i) p)]\<rparr>)"
  by (simp add: itbit_UpdateOrderbook_def store_defs Let_def)


section \<open>Get-or-refresh\<close>

lemma itbit_item_fun:
  "itbit_item P = (\<lambda>d. \<lparr>Amount = fst (P (d ! 1)), Item_Price = fst (P (d ! 0))\<rparr>)"
  by (rule ext) (simp add: itbit_item_def)

lemma itbit_level_errors_fun:
  "itbit_level_errors P = (\<lambda>d. log_Println (snd (P (d ! 1))) (log_Println (snd (P (d ! 0))) []))"
  by (rule ext) (simp add: itbit_level_errors_def)

text \<open>
  C1, as the claim states it, fails for BTCC: with a ticker cached under the key, BTCC's
  \<^verbatim>\<open>FetchTicker\<close> returns the zero snapshot and the error \<open>REST NOT SUPPORTED\<close>, not the
  stored snapshot.
\<close>

theorem btcc_fetch_ignores_cache_counterexample:
  "ticker_GetTicker (GetName (exchange_named ''BTCC'')) BTCUSD ''SPOT''
      (ticker_ProcessTicker ''BTCC'' BTCUSD cached_quote ''SPOT'' world_new)
     = (cached_quote, None)
   \<and> btcc_FetchTicker (exchange_named ''BTCC'') BTCUSD ''SPOT''
     = (Price_zero, Some (errors_New ''REST NOT SUPPORTED''))
   \<and> cached_quote \<noteq> Price_zero"
proof -
  have "Bid cached_quote \<noteq> Bid Price_zero"
    by (simp add: cached_quote_def Price_zero_def float64_zero_def)
  then have "cached_quote \<noteq> Price_zero" by auto
  then show ?thesis
    by (simp add: ticker_GetTicker_def ticker_ProcessTicker_def GetName_def exchange_named_def
        world_new_def btcc_FetchTicker_def)
qed

text \<open>
  C1, amended. For every pair and asset type, and for each of the three drivers with a REST
  transport (Gemini, Bitstamp, ItBit): \<^verbatim>\<open>FetchTicker\<close> and \<^verbatim>\<open>FetchOrderbook\<close> on a key whose
  snapshot is cached return that snapshot and leave the whole state as it was, the trace of
  venue calls included, whatever the venue would have answered. On a miss where the venue
  answers (for ItBit's order book: with levels that carry both strings), the fetch makes
  one venue call, stores under the key the snapshot built from the answer, changes nothing
  else in the stores, and returns that snapshot; a fetch of the same key in the state so
  reached, with the same pair or with the same symbols under another delimiter, returns
  the same snapshot and changes nothing, for every venue. BTCC's fetch operations return
  the zero snapshot and the error \<open>REST NOT SUPPORTED\<close> whatever is cached.
\<close>

theorem fetch_get_or_refresh:
  fixes w :: world and x :: "('n, 'ws, 'rq) Base" and p :: CurrencyPair and a :: string
  shows
  "(\<forall>GT t. Tickers w (cache_key_of (Name x) p a) = Some t \<longrightarrow>
       gemini_FetchTicker GT x p a w = ((t, None), w))
   \<and> (\<forall>GT tick. Tickers w (cache_key_of (Name x) p a) = None \<and> GT (Requests w) (Pair_String p) = (tick, None) \<longrightarrow>
        (\<exists>snap w'. gemini_FetchTicker GT x p a w = ((snap, None), w')
           \<and> snap = Price_zero\<lparr>Pair := p, Ask := gemini_Ask tick, Bid := gemini_Bid tick,
                       Last := gemini_Last tick, Volume := USD (gemini_Volume tick)\<rparr>
           \<and> w' = w\<lparr>Tickers := (Tickers w)(cache_key_of (Name x) p a \<mapsto> snap),
                     Requests := Requests w @ [GetTickerCall (Pair_String p)]\<rparr>
           \<and> (\<forall>GT' p'. cache_key_of (Name x) p' a = cache_key_of (Name x) p a \<longrightarrow>
                  gemini_FetchTicker GT' x p' a w' = ((snap, None), w'))))
   \<and> (\<forall>GO ob. Orderbooks w (cache_key_of (Name x) p a) = Some ob \<longrightarrow>
        gemini_FetchOrderbook GO x p a w = ((ob, None), w))
   \<and> (\<forall>GO new. Orderbooks w (cache_key_of (Name x) p a) = None
          \<and> GO (Requests w) (Pair_String p) = (new, None) \<longrightarrow>
        (\<exists>snap w'. gemini_FetchOrderbook GO x p a w = ((snap, None), w')
           \<and> snap = orderbook_Base_zero
                      \<lparr>Bids := map (\<lambda>e. \<lparr>Amount = gemini_Amount e, Item_Price = gemini_Price e\<rparr>) (gemini_Bids new),
                       Asks := map (\<lambda>e. \<lparr>Amount = gemini_Amount e, Item_Price = gemini_Price e\<rparr>) (gemini_Asks new)\<rparr>
           \<and> w' = w\<lparr>Orderbooks := (Orderbooks w)(cache_key_of (Name x) p a \<mapsto> snap),
                     Requests := Requests w @ [GetOrderbookCall (Pair_String p)]\<rparr>
           \<and> (\<forall>GO' p'. cache_key_of (Name x) p' a = cache_key_of (Name x) p a \<longrightarrow>
                  gemini_FetchOrderbook GO' x p' a w' = ((snap, None), w'))))
   \<and> (\<forall>GT t. Tickers w (cache_key_of (Name x) p a) = Some t \<longrightarrow>
       bitstamp_FetchTicker GT x p a w = ((t, None), w))
   \<and> (\<forall>GT tick. Tickers w (cache_key_of (Name x) p a) = None \<and> GT (Requests w) (Pair_String p) = (tick, None) \<longrightarrow>
        (\<exists>snap w'. bitstamp_FetchTicker GT x p a w = ((snap, None), w')
           \<and> snap = Price_zero\<lparr>Pair := p, Ask := bitstamp_Ask tick, Bid := bitstamp_Bid tick,
                       Low := bitstamp_Low tick, Last := bitstamp_Last tick,
                       Volume := bitstamp_Volume tick, High := bitstamp_High tick\<rparr>
           \<and> w' = w\<lparr>Tickers := (Tickers w)(cache_key_of (Name x) p a \<mapsto> snap),
                     Requests := Requests w @ [GetTickerCall (Pair_String p)]\<rparr>
           \<and> (\<forall>GT' p'. cache_key_of (Name x) p' a = cache_key_of (Name x) p a \<longrightarrow>
                  bitstamp_FetchTicker GT' x p' a w' = ((snap, None), w'))))
   \<and> (\<forall>GO ob. Orderbooks w (cache_key_of (Name x) p a) = Some ob \<longrightarrow>
        bitstamp_FetchOrderbook GO x p a w = ((ob, None), w))
   \<and> (\<forall>GO new. Orderbooks w (cache_key_of (Name x) p a) = None
          \<and> GO (Requests w) (Pair_String p) = (new, None) \<longrightarrow>
        (\<exists>snap w'. bitstamp_FetchOrderbook GO x p a w = ((snap, None), w')
           \<and> snap = orderbook_Base_zero
                      \<lparr>Bids := map (\<lambda>e. \<lparr>Amount = bitstamp_Amount e, Item_Price = bitstamp_Price e\<rparr>) (bitstamp_Bids new),
                       Asks := map (\<lambda>e. \<lparr>Amount = bitstamp_Amount e, Item_Price = bitstamp_Price e\<rparr>) (bitstamp_Asks new)\<rparr>
           \<and> w' = w\<lparr>Orderbooks := (Orderbooks w)(cache_key_of (Name x) p a \<mapsto> snap),
                     Requests := Requests w @ [GetOrderbookCall (Pair_String p)]\<rparr>
           \<and> (\<forall>GO' p'. cache_key_of (Name x) p' a = cache_key_of (Name x) p a \<longrightarrow>
                  bitstamp_FetchOrderbook GO' x p' a w' = ((snap, None), w'))))
   \<and> (\<forall>F GT t. Tickers w (cache_key_of (Name x) p a) = Some t \<longrightarrow>
       itbit_FetchTicker F GT x p a w = ((t, None), w))
   \<and> (\<forall>F GT tick. Tickers w (cache_key_of (Name x) p a) = None \<and> GT (Requests w) (F (Name x) p) = (tick, None) \<longrightarrow>
        (\<exists>snap w'. itbit_FetchTicker F GT x p a w = ((snap, None), w')
           \<and> snap = Price_zero\<lparr>Pair := p, Ask := itbit_Ask tick, Bid := itbit_Bid tick,
                       Last := LastPrice tick, High := High24h tick, Low := Low24h tick,
                       Volume := Volume24h tick\<rparr>
           \<and> w' = w\<lparr>Tickers := (Tickers w)(cache_key_of (Name x) p a \<mapsto> snap),
                     Requests := Requests w @ [GetTickerCall (F (Name x) p)]\<rparr>
           \<and> (\<forall>F' GT' p'. cache_key_of (Name x) p' a = cache_key_of (Name x) p a \<longrightarrow>
                  itbit_FetchTicker F' GT' x p' a w' = ((snap, None), w'))))
   \<and> (\<forall>F P GO ob. Orderbooks w (cache_key_of (Name x) p a) = Some ob \<longrightarrow>
        itbit_FetchOrderbook F P GO x p a w = (Returned (ob, None), w))
   \<and> (\<forall>F P GO new. Orderbooks w (cache_key_of (Name x) p a) = None
          \<and> GO (Requests w) (F (Name x) p) = (new, None)
          \<and> (\<forall>d\<in>set (itbit_Bids new) \<union> set (itbit_Asks new). 2 \<le> length d) \<longrightarrow>
        (\<exists>snap w'. itbit_FetchOrderbook F P GO x p a w = (Returned (snap, None), w')
           \<and> snap = orderbook_Base_zero
                      \<lparr>Bids := map (\<lambda>d. \<lparr>Amount = fst (P (d ! 1)), Item_Price = fst (P (d ! 0))\<rparr>) (itbit_Bids new),
                       Asks := map (\<lambda>d. \<lparr>Amount = fst (P (d ! 1)), Item_Price = fst (P (d ! 0))\<rparr>) (itbit_Asks new)\<rparr>
           \<and> w' = w\<lparr>Orderbooks := (Orderbooks w)(cache_key_of (Name x) p a \<mapsto> snap),
                     Requests := Requests w @ [GetOrderbookCall (F (Name x) p)],
                     Logged := Logged w
                       @ concat (map (\<lambda>d. log_Println (snd (P (d ! 1))) (log_Println (snd (P (d ! 0))) [])) (itbit_Bids new))
                       @ concat (map (\<lambda>d. log_Println (snd (P (d ! 1))) (log_Println (snd (P (d ! 0))) [])) (itbit_Asks new))\<rparr>
           \<and> (\<forall>F' P' GO' p'. cache_key_of (Name x) p' a = cache_key_of (Name x) p a \<longrightarrow>
                  itbit_FetchOrderbook F' P' GO' x p' a w' = (Returned (snap, None), w'))))
   \<and> btcc_FetchTicker x p a = (Price_zero, Some (errors_New ''REST NOT SUPPORTED''))
   \<and> btcc_FetchOrderbook x p a = (orderbook_Base_zero, Some (errors_New ''REST NOT SUPPORTED''))"
proof -
  have g_t: "\<exists>snap w'. gemini_FetchTicker GT x p a w = ((snap, None), w')
           \<and> snap = Price_zero\<lparr>Pair := p, Ask := gemini_Ask tick, Bid := gemini_Bid tick,
                       Last := gemini_Last tick, Volume := USD (gemini_Volume tick)\<rparr>
           \<and> w' = w\<lparr>Tickers := (Tickers w)(cache_key_of (Name x) p a \<mapsto> snap),
                     Requests := Requests w @ [GetTickerCall (Pair_String p)]\<rparr>
           \<and> (\<forall>GT' p'. cache_key_of (Name x) p' a = cache_key_of (Name x) p a \<longrightarrow>
                  gemini_FetchTicker GT' x p' a w' = ((snap, None), w'))"
    if "Tickers w (cache_key_of (Name x) p a) = None" "GT (Requests w) (Pair_String p) = (tick, None)"
    for GT tick
    using that
    by (simp add: gemini_FetchTicker_miss gemini_UpdateTicker_ok gemini_FetchTicker_hit)
  have g_o: "\<exists>snap w'. gemini_FetchOrderbook GO x p a w = ((snap, None), w')
           \<and> snap = orderbook_Base_zero
                      \<lparr>Bids := map (\<lambda>e. \<lparr>Amount = gemini_Amount e, Item_Price = gemini_Price e\<rparr>) (gemini_Bids new),
                       Asks := map (\<lambda>e. \<lparr>Amount = gemini_Amount e, Item_Price = gemini_Price e\<rparr>) (gemini_Asks new)\<rparr>
           \<and> w' = w\<lparr>Orderbooks := (Orderbooks w)(cache_key_of (Name x) p a \<mapsto> snap),
                     Requests := Requests w @ [GetOrderbookCall (Pair_String p)]\<rparr>
           \<and> (\<forall>GO' p'. cache_key_of (Name x) p' a = cache_key_of (Name x) p a \<longrightarrow>
                  gemini_FetchOrderbook GO' x p' a w' = ((snap, None), w'))"
    if "Orderbooks w (cache_key_of (Name x) p a) = None" "GO (Requests w) (Pair_String p) = (new, None)"
    for GO new
    using that
    by (simp add: gemini_FetchOrderbook_miss gemini_UpdateOrderbook_ok gemini_FetchOrderbook_hit)
  have b_t: "\<exists>snap w'. bitstamp_FetchTicker GT x p a w = ((snap, None), w')
           \<and> snap = Price_zero\<lparr>Pair := p, Ask := bitstamp_Ask tick, Bid := bitstamp_Bid tick,
                       Low := bitstamp_Low tick, Last := bitstamp_Last tick,
                       Volume := bitstamp_Volume tick, High := bitstamp_High tick\<rparr>
           \<and> w' = w\<lparr>Tickers := (Tickers w)(cache_key_of (Name x) p a \<mapsto> snap),
                     Requests := Requests w @ [GetTickerCall (Pair_String p)]\<rparr>
           \<and> (\<forall>GT' p'. cache_key_of (Name x) p' a = cache_key_of (Name x) p a \<longrightarrow>
                  bitstamp_FetchTicker GT' x p' a w' = ((snap, None), w'))"
    if "Tickers w (cache_key_of (Name x) p a) = None" "GT (Requests w) (Pair_String p) = (tick, None)"
    for GT tick
    using that
    by (simp add: bitstamp_FetchTicker_miss bitstamp_UpdateTicker_ok bitstamp_FetchTicker_hit)
  have b_o: "\<exists>snap w'. bitstamp_FetchOrderbook GO x p a w = ((snap, None), w')
           \<and> snap = orderbook_Base_zero
                      \<lparr>Bids := map (\<lambda>e. \<lparr>Amount = bitstamp_Amount e, Item_Price = bitstamp_Price e\<rparr>) (bitstamp_Bids new),
                       Asks := map (\<lambda>e. \<lparr>Amount = bitstamp_Amount e, Item_Price = bitstamp_Price e\<rparr>) (bitstamp_Asks new)\<rparr>
           \<and> w' = w\<lparr>Orderbooks := (Orderbooks w)(cache_key_of (Name x) p a \<mapsto> snap),
                     Requests := Requests w @ [GetOrderbookCall (Pair_String p)]\<rparr>
           \<and> (\<forall>GO' p'. cache_key_of (Name x) p' a = cache_key_of (Name x) p a \<longrightarrow>
                  bitstamp_FetchOrderbook GO' x p' a w' = ((snap, None), w'))"
    if "Orderbooks w (cache_key_of (Name x) p a) = None" "GO (Requests w) (Pair_String p) = (new, None)"
    for GO new
    using that
    by (simp add: bitstamp_FetchOrderbook_miss bitstamp_UpdateOrderbook_ok bitstamp_FetchOrderbook_hit)
  have i_t: "\<exists>snap w'. itbit_FetchTicker F GT x p a w = ((snap, None), w')
           \<and> snap = Price_zero\<lparr>Pair := p, Ask := itbit_Ask tick, Bid := itbit_Bid tick,
                       Last := LastPrice tick, High := High24h tick, Low := Low24h tick,
                       Volume := Volume24h tick\<rparr>
           \<and> w' = w\<lparr>Tickers := (Tickers w)(cache_key_of (Name x) p a \<mapsto> snap),
                     Requests := Requests w @ [GetTickerCall (F (Name x) p)]\<rparr>
           \<and> (\<forall>F' GT' p'. cache_key_of (Name x) p' a = cache_key_of (Name x) p a \<longrightarrow>
                  itbit_FetchTicker F' GT' x p' a w' = ((snap, None), w'))"
    if "Tickers w (cache_key_of (Name x) p a) = None" "GT (Requests w) (F (Name x) p) = (tick, None)"
    for F GT tick
    using that
    by (simp add: itbit_FetchTicker_miss itbit_UpdateTicker_ok itbit_FetchTicker_hit)
  have i_o: "\<exists>snap w'. itbit_FetchOrderbook F P GO x p a w = (Returned (snap, None), w')
           \<and> snap = orderbook_Base_zero
                      \<lparr>Bids := map (\<lambda>d. \<lparr>Amount = fst (P (d ! 1)), Item_Price = fst (P (d ! 0))\<rparr>) (itbit_Bids new),
                       Asks := map (\<lambda>d. \<lparr>Amount = fst (P (d ! 1)), Item_Price = fst (P (d ! 0))\<rparr>) (itbit_Asks new)\<rparr>
           \<and> w' = w\<lparr>Orderbooks := (Orderbooks w)(cache_key_of (Name x) p a \<mapsto> snap),
                     Requests := Requests w @ [GetOrderbookCall (F (Name x) p)],
                     Logged := Logged w
                       @ concat (map (\<lambda>d. log_Println (snd (P (d ! 1))) (log_Println (snd (P (d ! 0))) [])) (itbit_Bids new))
                       @ concat (map (\<lambda>d. log_Println (snd (P (d ! 1))) (log_Println (snd (P (d ! 0))) [])) (itbit_Asks new))\<rparr>
           \<and> (\<forall>F' P' GO' p'. cache_key_of (Name x) p' a = cache_key_of (Name x) p a \<longrightarrow>
                  itbit_FetchOrderbook F' P' GO' x p' a w' = (Returned (snap, None), w'))"
    if "Orderbooks w (cache_key_of (Name x) p a) = None" "GO (Requests w) (F (Name x) p) = (new, None)"
      "\<forall>d\<in>set (itbit_Bids new) \<union> set (itbit_Asks new). 2 \<le> length d"
    for F P GO new
    using that(1)
    by (simp add: itbit_FetchOrderbook_miss
        itbit_UpdateOrderbook_ok[of GO w F x p new, OF that(2,3)] itbit_FetchOrderbook_hit
        itbit_item_fun itbit_level_errors_fun)
  show ?thesis
    using g_t g_o b_t b_o i_t i_o
    by (simp add: gemini_FetchTicker_hit gemini_FetchOrderbook_hit bitstamp_FetchTicker_hit
        bitstamp_FetchOrderbook_hit itbit_FetchTicker_hit itbit_FetchOrderbook_hit
        btcc_FetchTicker_def btcc_FetchOrderbook_def)
qed

theorem fetch_get_or_refresh_witness:
  "Tickers world_new (cache_key_of (Name (exchange_named ''ExchangeA'')) BTCUSD ''SPOT'') = None
   \<and> answers gemini_quote (Requests world_new) (Pair_String BTCUSD) = (gemini_quote, None)
   \<and> gemini_FetchTicker (answers gemini_quote) (exchange_named ''ExchangeA'') BTCUSD ''SPOT''
         world_new
       = ((Price_zero\<lparr>Pair := BTCUSD, Ask := Finite 101, Bid := Finite 100, Last := Finite 100,
             Volume := Finite 5\<rparr>, None),
          world_new
            \<lparr>Tickers := (Tickers world_new)
               (cache_key_of (Name (exchange_named ''ExchangeA'')) BTCUSD ''SPOT'' \<mapsto>
                  Price_zero\<lparr>Pair := BTCUSD, Ask := Finite 101, Bid := Finite 100,
                    Last := Finite 100, Volume := Finite 5\<rparr>),
             Requests := [GetTickerCall ''BTCUSD'']\<rparr>)
   \<and> cache_key_of (Name (exchange_named ''ExchangeA'')) BTC_USD_dashed ''SPOT''
       = cache_key_of (Name (exchange_named ''ExchangeA'')) BTCUSD ''SPOT''
   \<and> gemini_FetchTicker (fails gemini_Ticker_zero (errors_New ''unreachable''))
         (exchange_named ''ExchangeA'') BTC_USD_dashed ''SPOT''
         (snd (gemini_FetchTicker (answers gemini_quote) (exchange_named ''ExchangeA'') BTCUSD
                 ''SPOT'' world_new))
       = ((Price_zero\<lparr>Pair := BTCUSD, Ask := Finite 101, Bid := Finite 100, Last := Finite 100,
             Volume := Finite 5\<rparr>, None),
          snd (gemini_FetchTicker (answers gemini_quote) (exchange_named ''ExchangeA'') BTCUSD
                 ''SPOT'' world_new))"
proof -
  let ?x = "exchange_named ''ExchangeA''"
  have miss: "Tickers world_new (cache_key_of (Name ?x) BTCUSD ''SPOT'') = None"
    by (simp add: world_new_def)
  have ans: "answers gemini_quote (Requests world_new) (Pair_String BTCUSD) = (gemini_quote, None)"
    by (simp add: answers_def)
  have key: "cache_key_of (Name ?x) BTC_USD_dashed ''SPOT'' = cache_key_of (Name ?x) BTCUSD ''SPOT''"
    by (simp add: cache_key_of_def BTC_USD_dashed_def BTCUSD_def)
  from fetch_get_or_refresh[of world_new ?x BTCUSD "''SPOT''", THEN conjunct2, THEN conjunct1,
      THEN spec[where x="answers gemini_quote"], THEN spec[where x=gemini_quote], THEN mp,
      OF conjI[OF miss ans]]
  obtain snap w' where r:
    "gemini_FetchTicker (answers gemini_quote) ?x BTCUSD ''SPOT'' world_new = ((snap, None), w')"
    "snap = Price_zero\<lparr>Pair := BTCUSD, Ask := gemini_Ask gemini_quote,
               Bid := gemini_Bid gemini_quote, Last := gemini_Last gemini_quote,
               Volume := USD (gemini_Volume gemini_quote)\<rparr>"
    "w' = world_new\<lparr>Tickers := (Tickers world_new)(cache_key_of (Name ?x) BTCUSD ''SPOT'' \<mapsto> snap),
             Requests := Requests world_new @ [GetTickerCall (Pair_String BTCUSD)]\<rparr>"
    "\<forall>GT' p'. cache_key_of (Name ?x) p' ''SPOT'' = cache_key_of (Name ?x) BTCUSD ''SPOT'' \<longrightarrow>
        gemini_FetchTicker GT' ?x p' ''SPOT'' w' = ((snap, None), w')"
    by blast
  have snap: "snap = Price_zero\<lparr>Pair := BTCUSD, Ask := Finite 101, Bid := Finite 100,
      Last := Finite 100, Volume := Finite 5\<rparr>"
    using r(2) by (simp add: gemini_quote_def)
  have reqs: "Requests world_new @ [GetTickerCall (Pair_String BTCUSD)] = [GetTickerCall ''BTCUSD'']"
    by (simp add: world_new_def Pair_String_def BTCUSD_def)
  from r(4) key have again:
    "gemini_FetchTicker (fails gemini_Ticker_zero (errors_New ''unreachable'')) ?x BTC_USD_dashed
        ''SPOT'' w' = ((snap, None), w')"
    by blast
  have first: "gemini_FetchTicker (answers gemini_quote) ?x BTCUSD ''SPOT'' world_new
       = ((Price_zero\<lparr>Pair := BTCUSD, Ask := Finite 101, Bid := Finite 100, Last := Finite 100,
             Volume := Finite 5\<rparr>, None),
          world_new
            \<lparr>Tickers := (Tickers world_new)
               (cache_key_of (Name ?x) BTCUSD ''SPOT'' \<mapsto>
                  Price_zero\<lparr>Pair := BTCUSD, Ask := Finite 101, Bid := Finite 100,
                    Last := Finite 100, Volume := Finite 5\<rparr>),
             Requests := [GetTickerCall ''BTCUSD'']\<rparr>)"
    using r(1) r(3) snap reqs by simp
  have second: "gemini_FetchTicker (fails gemini_Ticker_zero (errors_New ''unreachable''))
         ?x BTC_USD_dashed ''SPOT''
         (snd (gemini_FetchTicker (answers gemini_quote) ?x BTCUSD ''SPOT'' world_new))
       = ((Price_zero\<lparr>Pair := BTCUSD, Ask := Finite 101, Bid := Finite 100, Last := Finite 100,
             Volume := Finite 5\<rparr>, None),
          snd (gemini_FetchTicker (answers gemini_quote) ?x BTCUSD ''SPOT'' world_new))"
    using again snap by (simp add: r(1))
  from miss ans first key second show ?thesis by blast
qed

section \<open>A failed fetch leaves the cache alone\<close>

text \<open>
  C3. For every key and each update operation of the three REST drivers: if the venue call
  fails, the operation returns that error beside the zero snapshot, and the state after it
  differs from the state before in the trace of venue calls only: both stores are what they
  were, for this key and every other. A later call asks the venue again, and if the venue
  answers then, the snapshot is stored under the key and returned.
\<close>

theorem update_failure_leaves_cache:
  fixes w :: world and x :: "('n, 'ws, 'rq) Base" and p :: CurrencyPair and a :: string
  shows
  "(\<forall>GT tick e. GT (Requests w) (Pair_String p) = (tick, Some e) \<longrightarrow>
      (\<exists>w'. gemini_UpdateTicker GT x p a w = ((Price_zero, Some e), w')
         \<and> w' = w\<lparr>Requests := Requests w @ [GetTickerCall (Pair_String p)]\<rparr>
         \<and> Tickers w' = Tickers w \<and> Orderbooks w' = Orderbooks w
         \<and> (\<forall>tick'. GT (Requests w') (Pair_String p) = (tick', None) \<longrightarrow>
               snd (fst (gemini_UpdateTicker GT x p a w')) = None
               \<and> Tickers (snd (gemini_UpdateTicker GT x p a w')) (cache_key_of (Name x) p a)
                   = Some (fst (fst (gemini_UpdateTicker GT x p a w'))))))
   \<and> (\<forall>GO new e. GO (Requests w) (Pair_String p) = (new, Some e) \<longrightarrow>
      (\<exists>w'. gemini_UpdateOrderbook GO x p a w = ((orderbook_Base_zero, Some e), w')
         \<and> w' = w\<lparr>Requests := Requests w @ [GetOrderbookCall (Pair_String p)]\<rparr>
         \<and> Tickers w' = Tickers w \<and> Orderbooks w' = Orderbooks w
         \<and> (\<forall>new'. GO (Requests w') (Pair_String p) = (new', None) \<longrightarrow>
               snd (fst (gemini_UpdateOrderbook GO x p a w')) = None
               \<and> Orderbooks (snd (gemini_UpdateOrderbook GO x p a w')) (cache_key_of (Name x) p a)
                   = Some (fst (fst (gemini_UpdateOrderbook GO x p a w'))))))
   \<and> (\<forall>GT tick e. GT (Requests w) (Pair_String p) = (tick, Some e) \<longrightarrow>
      (\<exists>w'. bitstamp_UpdateTicker GT x p a w = ((Price_zero, Some e), w')
         \<and> w' = w\<lparr>Requests := Requests w @ [GetTickerCall (Pair_String p)]\<rparr>
         \<and> Tickers w' = Tickers w \<and> Orderbooks w' = Orderbooks w
         \<and> (\<forall>tick'. GT (Requests w') (Pair_String p) = (tick', None) \<longrightarrow>
               snd (fst (bitstamp_UpdateTicker GT x p a w')) = None
               \<and> Tickers (snd (bitstamp_UpdateTicker GT x p a w')) (cache_key_of (Name x) p a)
                   = Some (fst (fst (bitstamp_UpdateTicker GT x p a w'))))))
   \<and> (\<forall>GO new e. GO (Requests w) (Pair_String p) = (new, Some e) \<longrightarrow>
      (\<exists>w'. bitstamp_UpdateOrderbook GO x p a w = ((orderbook_Base_zero, Some e), w')
         \<and> w' = w\<lparr>Requests := Requests w @ [GetOrderbookCall (Pair_String p)]\<rparr>
         \<and> Tickers w' = Tickers w \<and> Orderbooks w' = Orderbooks w
         \<and> (\<forall>new'. GO (Requests w') (Pair_String p) = (new', None) \<longrightarrow>
               snd (fst (bitstamp_UpdateOrderbook GO x p a w')) = None
               \<and> Orderbooks (snd (bitstamp_UpdateOrderbook GO x p a w')) (cache_key_of (Name x) p a)
                   = Some (fst (fst (bitstamp_UpdateOrderbook GO x p a w'))))))
   \<and> (\<forall>F GT tick e. GT (Requests w) (F (Name x) p) = (tick, Some e) \<longrightarrow>
      (\<exists>w'. itbit_UpdateTicker F GT x p a w = ((Price_zero, Some e), w')
         \<and> w' = w\<lparr>Requests := Requests w @ [GetTickerCall (F (Name x) p)]\<rparr>
         \<and> Tickers w' = Tickers w \<and> Orderbooks w' = Orderbooks w
         \<and> (\<forall>tick'. GT (Requests w') (F (Name x) p) = (tick', None) \<longrightarrow>
               snd (fst (itbit_UpdateTicker F GT x p a w')) = None
               \<and> Tickers (snd (itbit_UpdateTicker F GT x p a w')) (cache_key_of (Name x) p a)
                   = Some (fst (fst (itbit_UpdateTicker F GT x p a w'))))))
   \<and> (\<forall>F P GO new e. GO (Requests w) (F (Name x) p) = (new, Some e) \<longrightarrow>
      (\<exists>w'. itbit_UpdateOrderbook F P GO x p a w = (Returned (orderbook_Base_zero, Some e), w')
         \<and> w' = w\<lparr>Requests := Requests w @ [GetOrderbookCall (F (Name x) p)]\<rparr>
         \<and> Tickers w' = Tickers w \<and> Orderbooks w' = Orderbooks w
         \<and> (\<forall>new'. GO (Requests w') (F (Name x) p) = (new', None)
                \<and> (\<forall>d\<in>set (itbit_Bids new') \<union> set (itbit_Asks new'). 2 \<le> length d) \<longrightarrow>
               (\<exists>snap. fst (itbit_UpdateOrderbook F P GO x p a w') = Returned (snap, None)
                  \<and> Orderbooks (snd (itbit_UpdateOrderbook F P GO x p a w')) (cache_key_of (Name x) p a)
                      = Some snap))))"
proof -
  have retry_io: "\<exists>snap. fst (itbit_UpdateOrderbook F P GO x p a w') = Returned (snap, None)
                  \<and> Orderbooks (snd (itbit_UpdateOrderbook F P GO x p a w')) (cache_key_of (Name x) p a)
                      = Some snap"
    if "GO (Requests w') (F (Name x) p) = (new', None)"
      "\<forall>d\<in>set (itbit_Bids new') \<union> set (itbit_Asks new'). 2 \<le> length d"
    for F P GO new' and w' :: world
    by (simp add: itbit_UpdateOrderbook_ok[of GO w' F x p new', OF that])
  show ?thesis
    using retry_io
    by (simp add: gemini_UpdateTicker_fail gemini_UpdateTicker_ok
        gemini_UpdateOrderbook_fail gemini_UpdateOrderbook_ok
        bitstamp_UpdateTicker_fail bitstamp_UpdateTicker_ok
        bitstamp_UpdateOrderbook_fail bitstamp_UpdateOrderbook_ok
        itbit_UpdateTicker_fail itbit_UpdateTicker_ok itbit_UpdateOrderbook_fail)
qed

theorem update_failure_leaves_cache_witness:
  "fails_once gemini_Ticker_zero (errors_New ''unreachable'') gemini_quote
       (Requests world_new) (Pair_String BTCUSD)
     = (gemini_Ticker_zero, Some (errors_New ''unreachable''))
   \<and> fst (gemini_UpdateTicker (fails_once gemini_Ticker_zero (errors_New ''unreachable'') gemini_quote)
            (exchange_named ''ExchangeA'') BTCUSD ''SPOT'' world_new)
       = (Price_zero, Some (errors_New ''unreachable''))
   \<and> Tickers (snd (gemini_UpdateTicker
                      (fails_once gemini_Ticker_zero (errors_New ''unreachable'') gemini_quote)
                      (exchange_named ''ExchangeA'') BTCUSD ''SPOT'' world_new))
       = Tickers world_new
   \<and> snd (fst (gemini_UpdateTicker
                 (fails_once gemini_Ticker_zero (errors_New ''unreachable'') gemini_quote)
                 (exchange_named ''ExchangeA'') BTCUSD ''SPOT''
                 (snd (gemini_UpdateTicker
                         (fails_once gemini_Ticker_zero (errors_New ''unreachable'') gemini_quote)
                         (exchange_named ''ExchangeA'') BTCUSD ''SPOT'' world_new))))
       = None"
proof -
  let ?x = "exchange_named ''ExchangeA''"
  let ?GT = "fails_once gemini_Ticker_zero (errors_New ''unreachable'') gemini_quote"
  have f: "?GT (Requests world_new) (Pair_String BTCUSD)
     = (gemini_Ticker_zero, Some (errors_New ''unreachable''))"
    by (simp add: fails_once_def world_new_def)
  from update_failure_leaves_cache[of world_new BTCUSD ?x "''SPOT''", THEN conjunct1,
      rule_format, of ?GT gemini_Ticker_zero "errors_New ''unreachable''", OF f]
  obtain w' where r:
    "gemini_UpdateTicker ?GT ?x BTCUSD ''SPOT'' world_new
       = ((Price_zero, Some (errors_New ''unreachable'')), w')"
    "w' = world_new\<lparr>Requests := Requests world_new @ [GetTickerCall (Pair_String BTCUSD)]\<rparr>"
    "Tickers w' = Tickers world_new"
    "\<forall>tick'. ?GT (Requests w') (Pair_String BTCUSD) = (tick', None) \<longrightarrow>
        snd (fst (gemini_UpdateTicker ?GT ?x BTCUSD ''SPOT'' w')) = None
        \<and> Tickers (snd (gemini_UpdateTicker ?GT ?x BTCUSD ''SPOT'' w')) (cache_key_of (Name ?x) BTCUSD ''SPOT'')
            = Some (fst (fst (gemini_UpdateTicker ?GT ?x BTCUSD ''SPOT'' w')))"
    by blast
  have "?GT (Requests w') (Pair_String BTCUSD) = (gemini_quote, None)"
    using r(2) by (simp add: fails_once_def)
  with r(4) have "snd (fst (gemini_UpdateTicker ?GT ?x BTCUSD ''SPOT'' w')) = None"
    by blast
  with f r(3) show ?thesis by (simp add: r(1))
qed

section \<open>Order books are stored as received\<close>



lemma gemini_crossed_book_stored_as_given:
  "fst (gemini_UpdateOrderbook (answers gemini_book_crossed) (exchange_named ''ExchangeA'')
          BTCUSD ''SPOT'' world_new)
     = (orderbook_Base_zero
          \<lparr>Bids := [\<lparr>Amount = Finite 1, Item_Price = Finite 99\<rparr>,
                    \<lparr>Amount = Finite 2, Item_Price = Finite 105\<rparr>],
           Asks := [\<lparr>Amount = Finite 1, Item_Price = Finite 102\<rparr>,
                    \<lparr>Amount = Finite 2, Item_Price = Finite 101\<rparr>]\<rparr>,
        None)"
proof -
  have ans: "answers gemini_book_crossed (Requests world_new) (Pair_String BTCUSD)
      = (gemini_book_crossed, None)"
    by (simp add: answers_def)
  show ?thesis
    unfolding gemini_UpdateOrderbook_ok[of "answers gemini_book_crossed" world_new BTCUSD
        gemini_book_crossed, OF ans]
    by (simp add: gemini_book_crossed_def)
qed

section \<open>ItBit: a level that does not parse\<close>

lemma ParseFloat_on_samples_values:
  "ParseFloat_on_samples ''100'' = (Finite 100, None)"
  "ParseFloat_on_samples ''101'' = (Finite 101, None)"
  "ParseFloat_on_samples ''102'' = (Finite 102, None)"
  "ParseFloat_on_samples ''1'' = (Finite 1, None)"
  "ParseFloat_on_samples ''2'' = (Finite 2, None)"
  "ParseFloat_on_samples ''abc'' = (Finite 0, Some (errors_New ''invalid syntax''))"
  "ParseFloat_on_samples [] = (Finite 0, Some (errors_New ''invalid syntax''))"
  "ParseFloat_on_samples ''1e400'' = (PosInf, Some (errors_New ''value out of range''))"
  by (simp_all add: ParseFloat_on_samples_def is_digit_def digits_value_def)

text \<open>
  C7, as the claim states it, fails twice. A level with a price string and no amount
  string is malformed, and it ends the whole update: reading \<^verbatim>\<open>data[1]\<close> panics, nothing
  is stored. And a field that fails to parse is not always zero: the price string
  \<^verbatim>\<open>1e400\<close> does not parse (Go's \<^verbatim>\<open>ParseFloat\<close> returns +Inf with the range error), the
  level is kept, and its price is +Inf.
\<close>

theorem itbit_malformed_level_counterexample:
  "itbit_Bids itbit_book_short_level = [[''100'']]
   \<and> fst (itbit_UpdateOrderbook format_plain ParseFloat_on_samples
            (answers itbit_book_short_level) (exchange_named ''ITBIT'') BTCUSD ''SPOT'' world_new)
       = Panicked ''index out of range''
   \<and> Orderbooks (snd (itbit_UpdateOrderbook format_plain ParseFloat_on_samples
                         (answers itbit_book_short_level) (exchange_named ''ITBIT'') BTCUSD
                         ''SPOT'' world_new))
       = Orderbooks world_new
   \<and> itbit_Bids itbit_book_out_of_range = [[''1e400'', ''1'']]
   \<and> snd (ParseFloat_on_samples ''1e400'') \<noteq> None
   \<and> fst (itbit_UpdateOrderbook format_plain ParseFloat_on_samples
            (answers itbit_book_out_of_range) (exchange_named ''ITBIT'') BTCUSD ''SPOT'' world_new)
       = Returned
           (orderbook_Base_zero\<lparr>Bids := [\<lparr>Amount = Finite 1, Item_Price = PosInf\<rparr>], Asks := []\<rparr>,
            None)
   \<and> PosInf \<noteq> float64_zero"
proof -
  let ?i = "exchange_named ''ITBIT''"
  have short: "fst (itbit_UpdateOrderbook format_plain ParseFloat_on_samples
            (answers itbit_book_short_level) ?i BTCUSD ''SPOT'' world_new)
       = Panicked ''index out of range''
     \<and> Orderbooks (snd (itbit_UpdateOrderbook format_plain ParseFloat_on_samples
                         (answers itbit_book_short_level) ?i BTCUSD ''SPOT'' world_new))
       = Orderbooks world_new"
    by (simp add: itbit_UpdateOrderbook_def call_venue_def answers_def itbit_book_short_level_def
        orderbook_Base_zero_def ParseFloat_on_samples_values log_Println_def Let_def)
  have ans: "answers itbit_book_out_of_range (Requests world_new) (format_plain (Name ?i) BTCUSD)
     = (itbit_book_out_of_range, None)"
    by (simp add: answers_def)
  have len: "\<forall>d\<in>set (itbit_Bids itbit_book_out_of_range)
      \<union> set (itbit_Asks itbit_book_out_of_range). 2 \<le> length d"
    by (simp add: itbit_book_out_of_range_def)
  have range: "fst (itbit_UpdateOrderbook format_plain ParseFloat_on_samples
            (answers itbit_book_out_of_range) ?i BTCUSD ''SPOT'' world_new)
       = Returned
           (orderbook_Base_zero\<lparr>Bids := [\<lparr>Amount = Finite 1, Item_Price = PosInf\<rparr>], Asks := []\<rparr>,
            None)"
    unfolding itbit_UpdateOrderbook_ok[of "answers itbit_book_out_of_range" world_new
        format_plain ?i BTCUSD itbit_book_out_of_range, OF ans len]
    by (simp add: itbit_book_out_of_range_def itbit_item_def ParseFloat_on_samples_values)
  have rest: "itbit_Bids itbit_book_short_level = [[''100'']]"
    "itbit_Bids itbit_book_out_of_range = [[''1e400'', ''1'']]"
    "snd (ParseFloat_on_samples ''1e400'') \<noteq> None"
    "PosInf \<noteq> float64_zero"
    by (simp_all add: itbit_book_short_level_def itbit_book_out_of_range_def
        ParseFloat_on_samples_values float64_zero_def)
  from short range rest show ?thesis by blast
qed

text \<open>
  C7, amended. For every order-book snapshot fetched by the ItBit driver whose levels each
  carry a price and an amount string: a string that fails to parse does not end the update.
  The field takes the value \<open>ParseFloat\<close> returned beside its error, which is zero
  wherever the parser returns zero with its error; the error is logged; and the remaining
  levels are processed: the update returns without error, the stored snapshot has one item
  per received level, in order, and the log grows by exactly the parse errors.
\<close>

theorem itbit_parse_failures_recovered:
  fixes w :: world and i :: "('n, 'ws, 'rq) Base"
  assumes "GO (Requests w) (F (Name i) p) = (new, None)"
    and "\<forall>d\<in>set (itbit_Bids new) \<union> set (itbit_Asks new). 2 \<le> length d"
  shows "itbit_UpdateOrderbook F P GO i p a w =
     (Returned
        (orderbook_Base_zero
           \<lparr>Bids := map (\<lambda>d. \<lparr>Amount = fst (P (d ! 1)), Item_Price = fst (P (d ! 0))\<rparr>)
                      (itbit_Bids new),
            Asks := map (\<lambda>d. \<lparr>Amount = fst (P (d ! 1)), Item_Price = fst (P (d ! 0))\<rparr>)
                      (itbit_Asks new)\<rparr>,
         None),
      w\<lparr>Orderbooks := (Orderbooks w)(cache_key_of (Name i) p a \<mapsto>
            orderbook_Base_zero
              \<lparr>Bids := map (\<lambda>d. \<lparr>Amount = fst (P (d ! 1)), Item_Price = fst (P (d ! 0))\<rparr>)
                         (itbit_Bids new),
               Asks := map (\<lambda>d. \<lparr>Amount = fst (P (d ! 1)), Item_Price = fst (P (d ! 0))\<rparr>)
                         (itbit_Asks new)\<rparr>),
        Requests := Requests w @ [GetOrderbookCall (F (Name i) p)],
        Logged := Logged w
          @ concat (map (\<lambda>d. log_Println (snd (P (d ! 1))) (log_Println (snd (P (d ! 0))) []))
                      (itbit_Bids new))
          @ concat (map (\<lambda>d. log_Println (snd (P (d ! 1))) (log_Println (snd (P (d ! 0))) []))
                      (itbit_Asks new))\<rparr>)
   \<and> length (Bids (the (Orderbooks (snd (itbit_UpdateOrderbook F P GO i p a w)) (cache_key_of (Name i) p a))))
       = length (itbit_Bids new)
   \<and> length (Asks (the (Orderbooks (snd (itbit_UpdateOrderbook F P GO i p a w)) (cache_key_of (Name i) p a))))
       = length (itbit_Asks new)
   \<and> ((\<forall>s. snd (P s) \<noteq> None \<longrightarrow> fst (P s) = float64_zero) \<longrightarrow>
        (\<forall>k<length (itbit_Bids new).
           (snd (P (itbit_Bids new ! k ! 0)) \<noteq> None \<longrightarrow>
              Item_Price (Bids (the (Orderbooks (snd (itbit_UpdateOrderbook F P GO i p a w)) (cache_key_of (Name i) p a))) ! k) = float64_zero)
           \<and> (snd (P (itbit_Bids new ! k ! 1)) \<noteq> None \<longrightarrow>
              Amount (Bids (the (Orderbooks (snd (itbit_UpdateOrderbook F P GO i p a w)) (cache_key_of (Name i) p a))) ! k) = float64_zero))
        \<and> (\<forall>k<length (itbit_Asks new).
           (snd (P (itbit_Asks new ! k ! 0)) \<noteq> None \<longrightarrow>
              Item_Price (Asks (the (Orderbooks (snd (itbit_UpdateOrderbook F P GO i p a w)) (cache_key_of (Name i) p a))) ! k) = float64_zero)
           \<and> (snd (P (itbit_Asks new ! k ! 1)) \<noteq> None \<longrightarrow>
              Amount (Asks (the (Orderbooks (snd (itbit_UpdateOrderbook F P GO i p a w)) (cache_key_of (Name i) p a))) ! k) = float64_zero)))"
  by (simp add: itbit_UpdateOrderbook_ok[of GO w F i p new, OF assms] itbit_item_fun
      itbit_level_errors_fun)

theorem itbit_parse_failures_recovered_witness:
  "answers itbit_book (Requests world_new) (format_plain (Name (exchange_named ''ITBIT'')) BTCUSD)
     = (itbit_book, None)
   \<and> map length (itbit_Bids itbit_book @ itbit_Asks itbit_book) = [2, 2, 2, 2]
   \<and> fst (itbit_UpdateOrderbook format_plain ParseFloat_on_samples (answers itbit_book)
            (exchange_named ''ITBIT'') BTCUSD ''SPOT'' world_new)
       = Returned
           (orderbook_Base_zero
              \<lparr>Bids := [\<lparr>Amount = Finite 1, Item_Price = Finite 100\<rparr>,
                        \<lparr>Amount = Finite 2, Item_Price = Finite 0\<rparr>],
               Asks := [\<lparr>Amount = Finite 1, Item_Price = Finite 101\<rparr>,
                        \<lparr>Amount = Finite 0, Item_Price = Finite 102\<rparr>]\<rparr>,
            None)
   \<and> Logged (snd (itbit_UpdateOrderbook format_plain ParseFloat_on_samples (answers itbit_book)
                    (exchange_named ''ITBIT'') BTCUSD ''SPOT'' world_new))
       = [errors_New ''invalid syntax'', errors_New ''invalid syntax'']"
proof -
  let ?i = "exchange_named ''ITBIT''"
  have ans: "answers itbit_book (Requests world_new) (format_plain (Name ?i) BTCUSD)
     = (itbit_book, None)"
    by (simp add: answers_def)
  have len: "\<forall>d\<in>set (itbit_Bids itbit_book) \<union> set (itbit_Asks itbit_book). 2 \<le> length d"
    by (simp add: itbit_book_def)
  note r = itbit_parse_failures_recovered[of "answers itbit_book" world_new format_plain ?i BTCUSD
      itbit_book ParseFloat_on_samples "''SPOT''", OF ans len, THEN conjunct1]
  have res: "fst (itbit_UpdateOrderbook format_plain ParseFloat_on_samples (answers itbit_book)
            ?i BTCUSD ''SPOT'' world_new)
       = Returned
           (orderbook_Base_zero
              \<lparr>Bids := [\<lparr>Amount = Finite 1, Item_Price = Finite 100\<rparr>,
                        \<lparr>Amount = Finite 2, Item_Price = Finite 0\<rparr>],
               Asks := [\<lparr>Amount = Finite 1, Item_Price = Finite 101\<rparr>,
                        \<lparr>Amount = Finite 0, Item_Price = Finite 102\<rparr>]\<rparr>,
            None)"
    unfolding r
    by (simp add: itbit_book_def ParseFloat_on_samples_values)
  have lg: "Logged (snd (itbit_UpdateOrderbook format_plain ParseFloat_on_samples
                    (answers itbit_book) ?i BTCUSD ''SPOT'' world_new))
       = [errors_New ''invalid syntax'', errors_New ''invalid syntax'']"
    unfolding r
    by (simp add: itbit_book_def ParseFloat_on_samples_values log_Println_def world_new_def)
  have lens: "map length (itbit_Bids itbit_book @ itbit_Asks itbit_book) = [2, 2, 2, 2]"
    by (simp add: itbit_book_def)
  from ans lens res lg show ?thesis by blast
qed

section \<open>Operations a driver does not back\<close>

lemmas unbacked_defs =
  gemini_GetExchangeFundTransferHistory_def gemini_GetExchangeHistory_def
  gemini_SubmitExchangeOrder_def gemini_ModifyExchangeOrder_def
  gemini_CancelExchangeOrder_def gemini_CancelAllExchangeOrders_def
  gemini_GetExchangeOrderInfo_def gemini_GetExchangeDepositAddress_def
  gemini_WithdrawCryptoExchangeFunds_def gemini_WithdrawFiatExchangeFunds_def
  gemini_WithdrawFiatExchangeFundsToInternationalBank_def gemini_GetWebsocket_def
  bitstamp_GetExchangeFundTransferHistory_def bitstamp_GetExchangeHistory_def
  bitstamp_SubmitExchangeOrder_def bitstamp_ModifyExchangeOrder_def
  bitstamp_CancelExchangeOrder_def bitstamp_CancelAllExchangeOrders_def
  bitstamp_GetExchangeOrderInfo_def bitstamp_GetExchangeDepositAddress_def
  bitstamp_WithdrawCryptoExchangeFunds_def bitstamp_WithdrawFiatExchangeFunds_def
  bitstamp_WithdrawFiatExchangeFundsToInternationalBank_def
  itbit_GetExchangeFundTransferHistory_def itbit_GetExchangeHistory_def
  itbit_SubmitExchangeOrder_def itbit_ModifyExchangeOrder_def
  itbit_CancelExchangeOrder_def itbit_CancelAllExchangeOrders_def
  itbit_GetExchangeOrderInfo_def itbit_GetExchangeDepositAddress_def
  itbit_WithdrawCryptoExchangeFunds_def itbit_WithdrawFiatExchangeFunds_def
  itbit_WithdrawFiatExchangeFundsToInternationalBank_def itbit_GetWebsocket_def
  btcc_UpdateTicker_def btcc_FetchTicker_def btcc_FetchOrderbook_def
  btcc_UpdateOrderbook_def btcc_GetExchangeAccountInfo_def
  btcc_GetExchangeFundTransferHistory_def btcc_GetExchangeHistory_def
  btcc_SubmitExchangeOrder_def btcc_ModifyExchangeOrder_def btcc_CancelExchangeOrder_def
  btcc_CancelAllExchangeOrders_def btcc_GetExchangeOrderInfo_def
  btcc_GetExchangeDepositAddress_def btcc_WithdrawCryptoExchangeFunds_def
  btcc_WithdrawFiatExchangeFunds_def btcc_WithdrawFiatExchangeFundsToInternationalBank_def

text \<open>
  Every operation whose body in the four wrappers is a lone \<^verbatim>\<open>return\<close> of an error: the
  order, deposit and withdrawal operations of all four drivers, the funding and trade
  history of all four, the websocket handle of Gemini and ItBit, and the market-data and
  account operations of BTCC. For every receiver and all arguments the call returns the
  zero value of its result type (0, the empty string, the empty slice, \<^verbatim>\<open>nil\<close>, the zero
  structure) beside an error made by \<^verbatim>\<open>errors.New\<close>. The functions are total, have no
  outcome but this pair, and take neither the state nor a dispatcher: there is nothing in
  them that panics, waits for admission or calls a venue.
\<close>

lemma unbacked_operations_return_errors:
  fixes x :: "('n, 'ws, 'rq) Base" and action :: 'action
  shows
  "gemini_GetExchangeFundTransferHistory x = ([], Some (errors_New ''not supported on exchange''))
   \<and> gemini_GetExchangeHistory x p assetType = ([], Some (errors_New ''trade history not yet implemented''))
   \<and> gemini_SubmitExchangeOrder x p side orderType amount price clientID = (0, Some (errors_New ''not yet implemented''))
   \<and> gemini_ModifyExchangeOrder x orderID action = (0, Some (errors_New ''not yet implemented''))
   \<and> gemini_CancelExchangeOrder x orderID = Some (errors_New ''not yet implemented'')
   \<and> gemini_CancelAllExchangeOrders x = Some (errors_New ''not yet implemented'')
   \<and> gemini_GetExchangeOrderInfo x orderID = (OrderDetail_zero, Some (errors_New ''not yet implemented''))
   \<and> gemini_GetExchangeDepositAddress x cryptocurrency = ([], Some (errors_New ''not yet implemented''))
   \<and> gemini_WithdrawCryptoExchangeFunds x address cryptocurrency amount = ([], Some (errors_New ''not yet implemented''))
   \<and> gemini_WithdrawFiatExchangeFunds x currency amount = ([], Some (errors_New ''not yet implemented''))
   \<and> gemini_WithdrawFiatExchangeFundsToInternationalBank x currency amount = ([], Some (errors_New ''not yet implemented''))
   \<and> gemini_GetWebsocket x = (None, Some (errors_New ''not yet implemented''))
   \<and> bitstamp_GetExchangeFundTransferHistory x = ([], Some (errors_New ''not supported on exchange''))
   \<and> bitstamp_GetExchangeHistory x p assetType = ([], Some (errors_New ''trade history not yet implemented''))
   \<and> bitstamp_SubmitExchangeOrder x p side orderType amount price clientID = (0, Some (errors_New ''not yet implemented''))
   \<and> bitstamp_ModifyExchangeOrder x orderID action = (0, Some (errors_New ''not yet implemented''))
   \<and> bitstamp_CancelExchangeOrder x orderID = Some (errors_New ''not yet implemented'')
   \<and> bitstamp_CancelAllExchangeOrders x = Some (errors_New ''not yet implemented'')
   \<and> bitstamp_GetExchangeOrderInfo x orderID = (OrderDetail_zero, Some (errors_New ''not yet implemented''))
   \<and> bitstamp_GetExchangeDepositAddress x cryptocurrency = ([], Some (errors_New ''not yet implemented''))
   \<and> bitstamp_WithdrawCryptoExchangeFunds x address cryptocurrency amount = ([], Some (errors_New ''not yet implemented''))
   \<and> bitstamp_WithdrawFiatExchangeFunds x currency amount = ([], Some (errors_New ''not yet implemented''))
   \<and> bitstamp_WithdrawFiatExchangeFundsToInternationalBank x currency amount = ([], Some (errors_New ''not yet implemented''))
   \<and> itbit_GetExchangeFundTransferHistory x = ([], Some (errors_New ''not supported on exchange''))
   \<and> itbit_GetExchangeHistory x p assetType = ([], Some (errors_New ''trade history not yet implemented''))
   \<and> itbit_SubmitExchangeOrder x p side orderType amount price clientID = (0, Some (errors_New ''not yet implemented''))
   \<and> itbit_ModifyExchangeOrder x orderID action = (0, Some (errors_New ''not yet implemented''))
   \<and> itbit_CancelExchangeOrder x orderID = Some (errors_New ''not yet implemented'')
   \<and> itbit_CancelAllExchangeOrders x = Some (errors_New ''not yet implemented'')
   \<and> itbit_GetExchangeOrderInfo x orderID = (OrderDetail_zero, Some (errors_New ''not yet implemented''))
   \<and> itbit_GetExchangeDepositAddress x cryptocurrency = ([], Some (errors_New ''not yet implemented''))
   \<and> itbit_WithdrawCryptoExchangeFunds x address cryptocurrency amount = ([], Some (errors_New ''not yet implemented''))
   \<and> itbit_WithdrawFiatExchangeFunds x currency amount = ([], Some (errors_New ''not yet implemented''))
   \<and> itbit_WithdrawFiatExchangeFundsToInternationalBank x currency amount = ([], Some (errors_New ''not yet implemented''))
   \<and> itbit_GetWebsocket x = (None, Some (errors_New ''not yet implemented''))
   \<and> btcc_UpdateTicker x p assetType = (Price_zero, Some (errors_New ''REST NOT SUPPORTED''))
   \<and> btcc_FetchTicker x p assetType = (Price_zero, Some (errors_New ''REST NOT SUPPORTED''))
   \<and> btcc_FetchOrderbook x p assetType = (orderbook_Base_zero, Some (errors_New ''REST NOT SUPPORTED''))
   \<and> btcc_UpdateOrderbook x p assetType = (orderbook_Base_zero, Some (errors_New ''REST NOT SUPPORTED''))
   \<and> btcc_GetExchangeAccountInfo x = (AccountInfo_zero, Some (errors_New ''REST NOT SUPPORTED''))
   \<and> btcc_GetExchangeFundTransferHistory x = ([], Some (errors_New ''REST NOT SUPPORTED''))
   \<and> btcc_GetExchangeHistory x p assetType = ([], Some (errors_New ''REST NOT SUPPORTED''))
   \<and> btcc_SubmitExchangeOrder x p side orderType amount price clientID = (0, Some (errors_New ''not yet implemented''))
   \<and> btcc_ModifyExchangeOrder x orderID action = (0, Some (errors_New ''not yet implemented''))
   \<and> btcc_CancelExchangeOrder x orderID = Some (errors_New ''not yet implemented'')
   \<and> btcc_CancelAllExchangeOrders x = Some (errors_New ''not yet implemented'')
   \<and> btcc_GetExchangeOrderInfo x orderID = (OrderDetail_zero, Some (errors_New ''not yet implemented''))
   \<and> btcc_GetExchangeDepositAddress x cryptocurrency = ([], Some (errors_New ''not yet implemented''))
   \<and> btcc_WithdrawCryptoExchangeFunds x address cryptocurrency amount = ([], Some (errors_New ''not yet implemented''))
   \<and> btcc_WithdrawFiatExchangeFunds x currency amount = ([], Some (errors_New ''not yet implemented''))
   \<and> btcc_WithdrawFiatExchangeFundsToInternationalBank x currency amount = ([], Some (errors_New ''not yet implemented''))"
  by (simp add: unbacked_defs Let_def)

text \<open>
  C2. One operation that its driver does not back breaks the rule. ItBit's
  \<^verbatim>\<open>GetExchangeAccountInfo\<close>, which its own comment marks as to-do, asks the venue nothing
  and returns no error: the caller gets an account record that holds the exchange name and
  no balance, with \<^verbatim>\<open>nil\<close> beside it, and cannot tell it from the account of a venue that
  answered. The same operation of BTCC, a sibling stub, returns the zero record with an
  error, as the claim says.
\<close>

theorem itbit_account_info_stub_returns_no_error:
  "itbit_GetExchangeAccountInfo (exchange_named ''ITBIT'')
     = (\<lparr>ExchangeName = ''ITBIT'', Currencies = []\<rparr>, None)
   \<and> snd (itbit_GetExchangeAccountInfo (exchange_named ''ITBIT'')) = None
   \<and> fst (itbit_GetExchangeAccountInfo (exchange_named ''ITBIT'')) \<noteq> AccountInfo_zero
   \<and> btcc_GetExchangeAccountInfo (exchange_named ''BTCC'')
       = (AccountInfo_zero, Some (errors_New ''REST NOT SUPPORTED''))"
  by (simp add: itbit_GetExchangeAccountInfo_def btcc_GetExchangeAccountInfo_def
      AccountInfo_zero_def GetName_def exchange_named_def Base_zero_def)

section \<open>Setup with a disabled configuration\<close>

text \<open>
  C10. For each of the four drivers, \<^verbatim>\<open>Setup\<close> with a configuration whose \<^verbatim>\<open>Enabled\<close> is
  false returns (it does not reach \<^verbatim>\<open>log.Fatal\<close>) and its receiver is the old one with
  \<^verbatim>\<open>Enabled\<close> set to false: whatever \<^verbatim>\<open>SetupDefaults\<close> and \<^verbatim>\<open>WebsocketSetup\<close> would do, they
  are not run, and putting the old flag back gives the old receiver, so the endpoints, the
  pair formats, the withdrawal-permission mask, the requester and the websocket are what
  they were. Gemini's sandbox URL is written exactly when the configuration is enabled,
  \<^verbatim>\<open>SetupDefaults\<close> succeeds and \<^verbatim>\<open>UseSandbox\<close> is set.
\<close>

theorem setup_disabled_only_disables:
  fixes b :: "('n, 'ws, 'rq) Base" and exch :: ExchangeConfig
  shows
  "(\<not> ExchangeConfig_Enabled exch \<longrightarrow>
      gemini_Setup SD sandboxURL b exch = Returned (SetEnabled b False)
      \<and> bitstamp_Setup SD WS pusherKey b exch = Returned (SetEnabled b False)
      \<and> itbit_Setup SD b exch = Returned (SetEnabled b False)
      \<and> btcc_Setup SD WS socketioAddress b exch = Returned (SetEnabled b False))
   \<and> Enabled (SetEnabled b False) = False
   \<and> (SetEnabled b False)\<lparr>Enabled := Enabled b\<rparr> = b
   \<and> Base_API (SetEnabled b False) = Base_API b
   \<and> RequestCurrencyPairFormat (SetEnabled b False) = RequestCurrencyPairFormat b
   \<and> ConfigCurrencyPairFormat (SetEnabled b False) = ConfigCurrencyPairFormat b
   \<and> APIWithdrawPermissions (SetEnabled b False) = APIWithdrawPermissions b
   \<and> Requester (SetEnabled b False) = Requester b
   \<and> Websocket (SetEnabled b False) = Websocket b
   \<and> WebsocketURL (SetEnabled b False) = WebsocketURL b
   \<and> (ExchangeConfig_Enabled exch \<longrightarrow>
        gemini_Setup SD sandboxURL b exch =
          (case SD b exch of
             (b', Some err) \<Rightarrow> Fatal err
           | (b', None) \<Rightarrow>
               if UseSandbox exch
               then Returned
                      (b'\<lparr>Base_API := (Base_API b')
                           \<lparr>API_Endpoints := (API_Endpoints (Base_API b'))\<lparr>URL := sandboxURL\<rparr>\<rparr>\<rparr>)
               else Returned b'))"
  by (simp add: gemini_Setup_def bitstamp_Setup_def itbit_Setup_def btcc_Setup_def SetEnabled_def)

theorem setup_disabled_only_disables_witness:
  "\<not> ExchangeConfig_Enabled exchange_disabled_config
   \<and> UseSandbox exchange_disabled_config
   \<and> gemini_Setup (\<lambda>b exch. (b\<lparr>Name := ExchangeConfig_Name exch, Verbose := True\<rparr>, None))
        ''https://sandbox.example'' (exchange_named ''Gemini'') exchange_disabled_config
       = Returned ((exchange_named ''Gemini'')\<lparr>Enabled := False\<rparr>)
   \<and> Enabled (exchange_named ''Gemini'')
   \<and> URL (API_Endpoints (Base_API ((exchange_named ''Gemini'')\<lparr>Enabled := False\<rparr>))) = []"
  using setup_disabled_only_disables[of exchange_disabled_config
      "\<lambda>b exch. (b\<lparr>Name := ExchangeConfig_Name exch, Verbose := True\<rparr>, None)"
      "''https://sandbox.example''" "exchange_named ''Gemini''"]
  by (simp add: exchange_disabled_config_def SetEnabled_def exchange_named_def Base_zero_def
      API_zero_def)

section \<open>Rate limit\<close>









lemma itbit_SetDefaults_permissions:
  "decode (APIWithdrawPermissions (itbit_SetDefaults authRate unauthRate apiURL spot h i))
     = [(WithdrawCryptoViaWebsiteOnly, WithdrawCryptoViaWebsiteOnlyText),
        (WithdrawFiatViaWebsiteOnly, WithdrawFiatViaWebsiteOnlyText)]"
  by (simp add: itbit_SetDefaults_def Let_def decode_def active_flags_def supports_def
      flag_label_def withdrawal_labels_def flag_defs upt_rec)




end
